theory Spec2Isabelle
  imports Complex_Main
begin

section \<open>Data model of the HLS monitor\<close>

text \<open>
  How the monitor's JavaScript numbers are modelled: counters that start at 0 and are
  only ever incremented are \<open>nat\<close>; sequence numbers read from the poll cache and
  millisecond timestamps are \<open>int\<close>; scores, bit rates and the decay factor are \<open>real\<close>,
  so the rounding of IEEE doubles is left out (the comparisons of the source are between
  integers, or against the constants 0.25, 0.5, 0.75 and 0.9). The frame rate, which can
  come out of a division by zero, is a \<open>jsnum\<close>.
\<close>

text \<open>A JavaScript \<open>Date\<close>: a millisecond timestamp, or the Invalid Date whose
  \<open>getTime()\<close> is NaN.\<close>

datatype jsdate = Valid int | Invalid

text \<open>A JavaScript number where a claim depends on the values that are not real numbers:
  NaN, the two infinities and the negative zero. \<open>Fin 0\<close> is the positive zero.\<close>

datatype jsnum = NaN | PosInf | NegInf | NegZero | Fin real

text \<open>The schema's enum \<open>['online', 'offline', 'error', 'stale']\<close> of \<open>status\<close>.\<close>

datatype status = Online | Offline | Error | Stale

text \<open>One entry of \<open>streamErrors\<close>. \<open>errorType\<close> stays a string: the sliding window
  compares it with names that are not in the schema's enum.\<close>

record error_entry =
  eid :: string
  date :: "jsdate option"
  errorType :: string
  mediaType :: string
  variant :: string
  details :: "string option"
  code :: "int option"

record health =
  isStale :: bool
  lastManifestUpdate :: "jsdate option"
  timeSinceLastUpdate :: int
  staleThreshold :: int
  mediaSequence :: int
  previousMediaSequence :: int
  sequenceJumps :: nat
  sequenceResets :: nat
  discontinuitySequence :: nat
  discontinuityCount :: nat
  segmentCount :: nat
  targetDuration :: real
  playlistType :: string
  totalErrors :: nat
  timeSinceLastError :: int
  recentErrors :: nat
  recentSequenceJumps :: nat
  recentSequenceResets :: nat
  lastErrorTime :: "jsdate option"

record video_stats =
  v_codec :: "string option"
  v_profile :: "string option"
  v_level :: "string option"
  v_width :: "int option"
  v_height :: "int option"
  v_pixFmt :: "string option"
  v_colorSpace :: "string option"
  v_bitRate :: "real option"

record audio_stats =
  codec :: "string option"
  channels :: "int option"
  sampleRate :: "int option"
  bitRate :: "real option"
  peakDb :: "real option"
  avgDb :: "real option"
  channelLayout :: "string option"
  isSilent :: bool

record container_stats =
  c_formatName :: "string option"
  c_duration :: real
  c_size :: real
  c_bitRate :: "real option"

record stats =
  bandwidth :: "nat option"
  resolution :: "string option"
  fps :: "jsnum option"
  video :: "video_stats option"
  audio :: "audio_stats option"
  container :: "container_stats option"

record stream =
  sid :: string
  name :: string
  url :: string
  status :: status
  health :: health
  stats :: stats
  streamErrors :: "error_entry list"
  thumbnail :: "string option"
  lastChecked :: "jsdate option"

text \<open>The result of the sliding-window read.\<close>

record recent_issues =
  jumps :: nat
  resets :: nat
  errors :: nat

section \<open>Scoring\<close>

text \<open>\<open>getErrorDecayFactor(lastErrorTime)\<close>. The first argument is \<open>Date.now()\<close>.
  \<open>!lastErrorTime\<close> holds for an absent value only: a \<open>Date\<close> object is truthy even
  when invalid. No step of the body can throw on these inputs, so the \<open>catch\<close> branch
  has no counterpart.\<close>

definition getErrorDecayFactor :: "int \<Rightarrow> jsdate option \<Rightarrow> real" where
  "getErrorDecayFactor now lastError =
     (case lastError of
        None \<Rightarrow> 1.0
      | Some Invalid \<Rightarrow> 0
      | Some (Valid errorTimestamp) \<Rightarrow>
          (let hoursSinceError = real_of_int (now - errorTimestamp) / (1000 * 60 * 60)
           in if hoursSinceError < 0 then 0
              else if hoursSinceError < 1 then 0
              else if hoursSinceError < 6 then 0.25
              else if hoursSinceError < 24 then 0.5
              else if hoursSinceError < 72 then 0.75
              else 0.9))"

text \<open>\<open>calculateHealthScore(stream, recentIssues = null, decayFactor = 0)\<close>.\<close>

definition calculateHealthScore :: "stream \<Rightarrow> recent_issues option \<Rightarrow> real \<Rightarrow> real" where
  "calculateHealthScore s recentIssues decayFactor =
     (let h = health s;
          score0 = (100 :: real);
          score1 = (if isStale h then score0 - 30 else score0);
          score2 = (if status s = Error then score1 - 40 else score1);
          score3 = (if status s = Offline then score2 - 50 else score2);
          score4 =
            (case recentIssues of
               Some r \<Rightarrow>
                 (let effectiveDecay = 1 - decayFactor;
                      jumpPenalty = min (real (jumps r) * 5) 20 * effectiveDecay;
                      resetPenalty = min (real (resets r) * 10) 30 * effectiveDecay;
                      errorPenalty = min (real (errors r) * 2) 20 * effectiveDecay
                  in score3 - (jumpPenalty + resetPenalty + errorPenalty))
             | None \<Rightarrow>
                 (let a = (if sequenceJumps h > 0
                           then score3 - min (real (sequenceJumps h) * 5) 20 else score3);
                      b = (if sequenceResets h > 0
                           then a - min (real (sequenceResets h) * 10) 30 else a)
                  in if totalErrors h > 0
                     then b - min (real (totalErrors h) * 2) 20 else b))
      in max 0 (min 100 score4))"

text \<open>JavaScript truthiness of an optional string: absent and the empty string are falsy.\<close>

definition truthyStr :: "string option \<Rightarrow> bool" where
  "truthyStr s = (case s of None \<Rightarrow> False | Some t \<Rightarrow> t \<noteq> [])"

text \<open>The guard \<open>n && n < bound\<close> on an optional number: an absent number and 0 are falsy.\<close>

definition truthyAndBelow :: "int option \<Rightarrow> int \<Rightarrow> bool" where
  "truthyAndBelow n bound = (case n of None \<Rightarrow> False | Some k \<Rightarrow> k \<noteq> 0 \<and> k < bound)"

definition truthyAndAtLeast :: "int option \<Rightarrow> int \<Rightarrow> bool" where
  "truthyAndAtLeast n bound = (case n of None \<Rightarrow> False | Some k \<Rightarrow> k \<noteq> 0 \<and> k \<ge> bound)"

text \<open>\<open>calculateVideoScore(stream)\<close>.\<close>

definition calculateVideoScore :: "stream \<Rightarrow> real" where
  "calculateVideoScore s =
     (case video (stats s) of
        None \<Rightarrow> 50
      | Some v \<Rightarrow>
          (let score0 = (100 :: real);
               score1 = (if \<not> truthyStr (v_codec v) then score0 - 20 else score0);
               score2 = (if truthyAndBelow (v_width v) 720
                         then score1 - 10 else score1);
               score3 = (if truthyAndAtLeast (v_width v) 1920
                         then score2 + 0 else score2)
           in max 0 (min 100 score3)))"

text \<open>\<open>calculateAudioScore(stream)\<close>.\<close>

definition calculateAudioScore :: "stream \<Rightarrow> real" where
  "calculateAudioScore s =
     (case audio (stats s) of
        None \<Rightarrow> 50
      | Some a \<Rightarrow>
          (let score0 = (100 :: real);
               score1 = (if \<not> truthyStr (codec a) then score0 - 20 else score0);
               score2 = (if truthyAndBelow (sampleRate a) 44100
                         then score1 - 10 else score1);
               score3 = (if isSilent a then score2 - 15 else score2)
           in max 0 (min 100 score3)))"

section \<open>Strings\<close>

text \<open>\<open>s.startsWith(p)\<close> and \<open>s.includes(sub)\<close>.\<close>

definition startsWith :: "string \<Rightarrow> string \<Rightarrow> bool" where
  "startsWith s p = (take (length p) s = p)"

fun includesStr :: "string \<Rightarrow> string \<Rightarrow> bool" where
  "includesStr [] sub = (sub = [])"
| "includesStr (c # cs) sub = (startsWith (c # cs) sub \<or> includesStr cs sub)"

text \<open>A template literal's \<open>${n}\<close> for an integer \<open>n\<close>: its decimal digits, with a minus
  sign when negative. \<open>digitChar\<close> is only ever applied to a number below 10.\<close>

definition digitChar :: "nat \<Rightarrow> char" where
  "digitChar d = ''0123456789'' ! d"

function showNat :: "nat \<Rightarrow> string" where
  "showNat n = (if n < 10 then [digitChar n] else showNat (n div 10) @ [digitChar (n mod 10)])"
  by pat_completeness auto
termination
  by (relation "measure id") auto

declare showNat.simps [simp del]

definition showInt :: "int \<Rightarrow> string" where
  "showInt i = (if i < 0 then CHR ''-'' # showNat (nat (- i)) else showNat (nat i))"

text \<open>\<open>u.substring(0, u.lastIndexOf('/') + 1)\<close>: the text up to and including the last
  slash, empty when there is none (\<open>lastIndexOf\<close> is then -1).\<close>

definition baseUrl :: "string \<Rightarrow> string" where
  "baseUrl u = rev (dropWhile (\<lambda>c. c \<noteq> CHR ''/'') (rev u))"

text \<open>\<open>resolveVariantUrl(masterUrl, variantUri)\<close>; the same rule resolves a segment's URI
  against the playlist it came from.\<close>

definition resolveVariantUrl :: "string \<Rightarrow> string \<Rightarrow> string" where
  "resolveVariantUrl masterUrl variantUri =
     (if startsWith variantUri ''http'' then variantUri else baseUrl masterUrl @ variantUri)"

section \<open>Sliding window over the error ledger\<close>

text \<open>What \<open>Stream.findById(streamId).select('streamErrors').lean()\<close> can answer: it
  throws, it finds no document, or it finds one, whose \<open>streamErrors\<close> may be absent.\<close>

datatype lookup = LookupThrows string | NotFound | Found "error_entry list option"

definition defaultResult :: recent_issues where
  "defaultResult = \<lparr>jumps = 0, resets = 0, errors = 0\<rparr>"

text \<open>The filter's predicate: \<open>!err.date\<close> rejects an absent date, and an Invalid Date
  compares false with everything. \<open>windowStart\<close> is \<open>Date.now() - 12 * 60 * 1000\<close>.\<close>

definition inWindow :: "int \<Rightarrow> error_entry \<Rightarrow> bool" where
  "inWindow now err =
     (case date err of
        None \<Rightarrow> False
      | Some Invalid \<Rightarrow> False
      | Some (Valid t) \<Rightarrow> t \<ge> now - 12 * 60 * 1000)"

text \<open>\<open>err.details && err.details.includes(sub)\<close>.\<close>

definition detailsInclude :: "error_entry \<Rightarrow> string \<Rightarrow> bool" where
  "detailsInclude err sub =
     (case details err of None \<Rightarrow> False | Some d \<Rightarrow> d \<noteq> [] \<and> includesStr d sub)"

text \<open>The body of the \<open>forEach\<close> over the windowed entries.\<close>

definition tally :: "recent_issues \<Rightarrow> error_entry \<Rightarrow> recent_issues" where
  "tally acc err =
     (let acc1 = acc\<lparr>errors := errors acc + 1\<rparr>;
          acc2 = (if errorType err = ''SEQUENCE_JUMP'' \<or> detailsInclude err ''Sequence jumped''
                  then acc1\<lparr>jumps := jumps acc1 + 1\<rparr> else acc1)
      in if errorType err = ''SEQUENCE_RESET'' \<or> detailsInclude err ''reset''
         then acc2\<lparr>resets := resets acc2 + 1\<rparr> else acc2)"

text \<open>\<open>calculateSlidingWindowMetrics(streamId)\<close>, given \<open>Date.now()\<close> and the store's
  answer.\<close>

definition calculateSlidingWindowMetrics ::
  "int \<Rightarrow> (string \<Rightarrow> lookup) \<Rightarrow> string option \<Rightarrow> recent_issues" where
  "calculateSlidingWindowMetrics now findById streamId =
     (case streamId of
        None \<Rightarrow> defaultResult
      | Some i \<Rightarrow>
          if i = [] then defaultResult
          else (case findById i of
                  LookupThrows msg \<Rightarrow> defaultResult
                | NotFound \<Rightarrow> defaultResult
                | Found None \<Rightarrow> defaultResult
                | Found (Some errs) \<Rightarrow>
                    foldl tally \<lparr>jumps = 0, resets = 0, errors = 0\<rparr>
                      (filter (inWindow now) errs)))"

section \<open>Frame rate of the probed segment\<close>

text \<open>ECMAScript's \<open>parseFloat\<close>: leading white space is skipped, then the longest prefix
  that is a decimal literal (sign, digits, fraction, exponent) or \<open>Infinity\<close> is read;
  without one the result is NaN. The decimal value is kept exact.\<close>

definition isWs :: "char \<Rightarrow> bool" where
  "isWs c = (c \<in> set [CHR '' '', CHR 0x09, CHR 0x0A, CHR 0x0B, CHR 0x0C, CHR 0x0D])"

definition isDigit :: "char \<Rightarrow> bool" where
  "isDigit c = (c \<in> set ''0123456789'')"

definition digitsVal :: "string \<Rightarrow> nat" where
  "digitsVal ds = foldl (\<lambda>acc c. acc * 10 + (of_char c - 48)) 0 ds"

definition exponentOf :: "string \<Rightarrow> int" where
  "exponentOf r =
     (if startsWith r ''e'' \<or> startsWith r ''E'' then
        (let r1 = tl r;
             neg = startsWith r1 ''-'';
             r2 = (if startsWith r1 ''-'' \<or> startsWith r1 ''+'' then tl r1 else r1);
             ds = takeWhile isDigit r2
         in if ds = [] then 0
            else if neg then - int (digitsVal ds) else int (digitsVal ds))
      else 0)"

definition scale10 :: "real \<Rightarrow> int \<Rightarrow> real" where
  "scale10 x e = (if e \<ge> 0 then x * 10 ^ nat e else x / 10 ^ nat (- e))"

definition parseFloat :: "string \<Rightarrow> jsnum" where
  "parseFloat str =
     (let s0 = dropWhile isWs str;
          neg = startsWith s0 ''-'';
          s1 = (if startsWith s0 ''-'' \<or> startsWith s0 ''+'' then tl s0 else s0)
      in if startsWith s1 ''Infinity'' then (if neg then NegInf else PosInf)
         else
           (let ip = takeWhile isDigit s1;
                r1 = dropWhile isDigit s1;
                hasDot = startsWith r1 ''.'';
                fp = (if hasDot then takeWhile isDigit (tl r1) else []);
                r2 = (if hasDot then dropWhile isDigit (tl r1) else r1)
            in if ip = [] \<and> fp = [] then NaN
               else
                 (let mant = real (digitsVal ip) + real (digitsVal fp) / 10 ^ length fp;
                      v = scale10 mant (exponentOf r2)
                  in if v = 0 then (if neg then NegZero else Fin 0)
                     else Fin (if neg then - v else v))))"

text \<open>The division of two JavaScript numbers (IEEE 754): a zero divisor gives an
  infinity, or NaN when the dividend is a zero too.\<close>

definition isNegative :: "jsnum \<Rightarrow> bool" where
  "isNegative x = (case x of NegInf \<Rightarrow> True | NegZero \<Rightarrow> True | Fin r \<Rightarrow> r < 0 | _ \<Rightarrow> False)"

definition isZero :: "jsnum \<Rightarrow> bool" where
  "isZero x = (x = NegZero \<or> x = Fin 0)"

definition isInfinite :: "jsnum \<Rightarrow> bool" where
  "isInfinite x = (x = PosInf \<or> x = NegInf)"

definition magnitude :: "jsnum \<Rightarrow> real" where
  "magnitude x = (case x of Fin r \<Rightarrow> \<bar>r\<bar> | _ \<Rightarrow> 0)"

definition jsDivide :: "jsnum \<Rightarrow> jsnum \<Rightarrow> jsnum" where
  "jsDivide a b =
     (let neg = (isNegative a \<noteq> isNegative b)
      in if a = NaN \<or> b = NaN then NaN
         else if isZero a \<and> isZero b then NaN
         else if isInfinite a \<and> isInfinite b then NaN
         else if isZero b \<or> isInfinite a then (if neg then NegInf else PosInf)
         else if isZero a \<or> isInfinite b then (if neg then NegZero else Fin 0)
         else Fin (if neg then - (magnitude a / magnitude b) else magnitude a / magnitude b))"

text \<open>\<open>x || 0\<close> on a number: NaN and the zeros are falsy.\<close>

definition orZero :: "jsnum \<Rightarrow> jsnum" where
  "orZero x = (if x = NaN \<or> isZero x then Fin 0 else x)"

text \<open>\<open>str.split('/')\<close>.\<close>

fun splitOn :: "char \<Rightarrow> string \<Rightarrow> string list" where
  "splitOn sep [] = [[]]"
| "splitOn sep (c # cs) =
     (if c = sep then [] # splitOn sep cs
      else (case splitOn sep cs of [] \<Rightarrow> [[c]] | p # ps \<Rightarrow> (c # p) # ps))"

text \<open>The value \<open>processSegment\<close> stores in \<open>stream.stats.fps\<close> for a video stream whose
  \<open>r_frame_rate\<close> is the argument (it starts from 0 and is overwritten when the rate
  string is truthy).\<close>

definition probeFps :: "string option \<Rightarrow> jsnum" where
  "probeFps r_frame_rate =
     (case r_frame_rate of
        None \<Rightarrow> Fin 0
      | Some str \<Rightarrow>
          if str = [] then Fin 0
          else (case splitOn CHR ''/'' str of
                  [num, den] \<Rightarrow> orZero (jsDivide (parseFloat num) (parseFloat den))
                | _ \<Rightarrow> orZero (parseFloat str)))"

section \<open>The bounded queue of external-tool tasks\<close>

text \<open>The module's state is \<open>activeProcesses\<close> and \<open>processQueue\<close>. The model adds the
  two lists a claim about it needs to speak of: \<open>running\<close>, the tasks whose \<open>task()\<close>
  has been called and has not settled, and \<open>resolved\<close>, the tasks whose \<open>runLimited\<close>
  promise has been resolved. A task is named by a number. JavaScript runs each callback
  to completion, so a call of \<open>runLimited\<close> and a run of the \<open>finally\<close> callback are
  atomic steps.\<close>

record pipeline =
  activeProcesses :: int
  processQueue :: "nat list"
  running :: "nat list"
  resolved :: "nat list"

datatype outcome = Fulfilled | Rejected string

definition MAX_CONCURRENT_FFMPEG :: int where
  "MAX_CONCURRENT_FFMPEG = 4"

definition idle :: pipeline where
  "idle = \<lparr>activeProcesses = 0, processQueue = [], running = [], resolved = []\<rparr>"

text \<open>The closure \<open>execute\<close>: count the task in and call it.\<close>

definition execute :: "pipeline \<Rightarrow> nat \<Rightarrow> pipeline" where
  "execute p t = p\<lparr>activeProcesses := activeProcesses p + 1, running := running p @ [t]\<rparr>"

definition runLimited :: "pipeline \<Rightarrow> nat \<Rightarrow> pipeline" where
  "runLimited p t =
     (if activeProcesses p < MAX_CONCURRENT_FFMPEG then execute p t
      else p\<lparr>processQueue := processQueue p @ [t]\<rparr>)"

text \<open>\<open>.catch(() => { })\<close> turns a rejection into a fulfilment.\<close>

definition swallow :: "outcome \<Rightarrow> outcome" where
  "swallow out = (case out of Fulfilled \<Rightarrow> Fulfilled | Rejected e \<Rightarrow> Fulfilled)"

text \<open>The \<open>finally\<close> callback of task \<open>t\<close>, run when the task has settled.\<close>

definition release :: "pipeline \<Rightarrow> nat \<Rightarrow> pipeline" where
  "release p t =
     p\<lparr>activeProcesses := activeProcesses p - 1, running := remove1 t (running p),
       resolved := resolved p @ [t]\<rparr>"

definition settle :: "pipeline \<Rightarrow> nat \<Rightarrow> outcome \<Rightarrow> pipeline" where
  "settle p t out =
     (case swallow out of
        Fulfilled \<Rightarrow>
          (let p1 = release p t
           in case processQueue p1 of
                [] \<Rightarrow> p1
              | next # rest \<Rightarrow> execute (p1\<lparr>processQueue := rest\<rparr>) next)
      | Rejected e \<Rightarrow> p)"

text \<open>The states the queue can be in: it starts idle, any task may be submitted, and any
  running task may settle, either way.\<close>

inductive reachable :: "pipeline \<Rightarrow> bool" where
  start: "reachable idle"
| submit: "reachable p \<Longrightarrow> reachable (runLimited p t)"
| finish: "reachable p \<Longrightarrow> t \<in> set (running p) \<Longrightarrow> reachable (settle p t out)"

section \<open>One poll of a stream\<close>

subsection \<open>Manifests, the poll cache and the outside world\<close>

text \<open>What the playlist parser returns. An absent list and an empty one are treated
  alike by the monitor, so \<open>playlists\<close> and \<open>segments\<close> are plain lists. The media
  sequence of a playlist is a non-negative decimal integer.\<close>

record segment =
  uri :: string
  discontinuity :: bool

record variant_playlist =
  variantUri :: string
  BANDWIDTH :: "nat option"
  RESOLUTION :: "(nat \<times> nat) option"

record manifest =
  playlists :: "variant_playlist list"
  segments :: "segment list"
  m_mediaSequence :: "nat option"
  m_targetDuration :: "real option"
  m_discontinuitySequence :: "nat option"
  m_playlistType :: "string option"

text \<open>The entry of \<open>streamState\<close> for one stream.\<close>

record poll_state =
  lastPollTime :: int
  lastMediaSequence :: int
  consecutiveStales :: nat

text \<open>A failed fetch: \<open>err.message\<close> and \<open>err.response?.status\<close>.\<close>

record fetch_error =
  message :: string
  httpStatus :: "int option"

text \<open>How \<open>stream.save()\<close> ends: it succeeds, or throws an error named \<open>VersionError\<close>,
  or throws another error with a message.\<close>

datatype save_result = Saved | VersionError | SaveError string

text \<open>Everything a poll reads from outside: \<open>Date.now()\<close> on entry, the clock read by
  every later \<open>new Date()\<close> and \<open>Date.now()\<close>, the random part of the error ids, the
  answers of the HTTP fetches, of the saves of this poll in their order, of the ledger
  lookup, and whether \<open>MetricsHistory.create\<close> succeeds.\<close>

record env =
  dateNow :: int
  clock :: int
  randomId :: "nat \<Rightarrow> string"
  fetchManifest :: "string \<Rightarrow> fetch_error + manifest"
  saveAnswer :: "nat \<Rightarrow> save_result"
  findById :: "string \<Rightarrow> lookup"
  createSucceeds :: bool

record metrics_sample =
  ms_streamId :: string
  healthScore :: real
  videoScore :: real
  audioScore :: real
  videoBitrate :: real
  audioBitrate :: real
  videoLevel :: real
  audioLevel :: real
  ms_fps :: jsnum
  ms_status :: status
  ms_mediaSequence :: int
  ms_segmentCount :: nat
  errorCount :: nat

text \<open>An event on the channel: \<open>io.emit('stream:update', stream)\<close>.\<close>

datatype event = StreamUpdate stream

text \<open>Everything a poll changes outside the stream record: the poll cache, the events
  emitted, the metrics samples created, the segment URLs handed to \<open>processSegment\<close>,
  and the number of saves made.\<close>

record world =
  cache :: "string \<rightharpoonup> poll_state"
  events :: "event list"
  samples :: "metrics_sample list"
  dispatched :: "string list"
  saveCount :: nat

subsection \<open>The error ledger\<close>

definition MANIFEST_RETRIEVAL :: string where
  "MANIFEST_RETRIEVAL = ''Manifest Retrieval''"

definition MEDIA_SEQUENCE :: string where
  "MEDIA_SEQUENCE = ''Media Sequence''"

definition PLAYLIST_CONTENT :: string where
  "PLAYLIST_CONTENT = ''Playlist Content''"

definition STALE_MANIFEST :: string where
  "STALE_MANIFEST = ''Stale Manifest''"

text \<open>\<open>generateErrorId()\<close>; the random part is the environment's, one per ledger
  position.\<close>

definition generateErrorId :: "env \<Rightarrow> nat \<Rightarrow> string" where
  "generateErrorId e k = ''eid-'' @ showInt (clock e) @ ''-'' @ randomId e k"

text \<open>The entry \<open>addError\<close> builds, and \<open>addError(stream, errorType, details, mediaType,
  code)\<close> itself.\<close>

definition newEntry :: "env \<Rightarrow> stream \<Rightarrow> string \<Rightarrow> string \<Rightarrow> string \<Rightarrow> int option \<Rightarrow> error_entry" where
  "newEntry e s errType det mType cd =
     \<lparr>eid = generateErrorId e (length (streamErrors s)),
      date = Some (Valid (clock e)),
      errorType = errType,
      mediaType = mType,
      variant = (case bandwidth (stats s) of Some b \<Rightarrow> showNat b | None \<Rightarrow> ''unknown''),
      details = Some det,
      code = cd\<rparr>"

definition addError :: "env \<Rightarrow> stream \<Rightarrow> string \<Rightarrow> string \<Rightarrow> string \<Rightarrow> int option \<Rightarrow> stream" where
  "addError e s errType det mType cd =
     s\<lparr>streamErrors := streamErrors s @ [newEntry e s errType det mType cd],
       health := (health s)\<lparr>totalErrors := totalErrors (health s) + 1,
                            timeSinceLastError := 0,
                            lastErrorTime := Some (Valid (clock e))\<rparr>\<rparr>"

text \<open>The schema's \<open>pre('save')\<close> hook: entries without a valid date within the last seven
  days are dropped.\<close>

definition keptOnSave :: "int \<Rightarrow> error_entry \<Rightarrow> bool" where
  "keptOnSave t err =
     (case date err of
        None \<Rightarrow> False
      | Some Invalid \<Rightarrow> False
      | Some (Valid d) \<Rightarrow> d > t - 7 * 24 * 60 * 60 * 1000)"

definition preSave :: "int \<Rightarrow> stream \<Rightarrow> stream" where
  "preSave t s =
     (if streamErrors s \<noteq> [] then s\<lparr>streamErrors := filter (keptOnSave t) (streamErrors s)\<rparr>
      else s)"

text \<open>\<open>stream.save()\<close>: the hook runs, then the store answers.\<close>

definition save :: "env \<Rightarrow> world \<Rightarrow> stream \<Rightarrow> save_result \<times> world \<times> stream" where
  "save e w s = (saveAnswer e (saveCount w), w\<lparr>saveCount := saveCount w + 1\<rparr>, preSave (clock e) s)"

definition emitUpdate :: "world \<Rightarrow> stream \<Rightarrow> world" where
  "emitUpdate w s = w\<lparr>events := events w @ [StreamUpdate s]\<rparr>"

subsection \<open>\<open>checkStream\<close>\<close>

text \<open>The entry of the poll cache, or the default for a stream not seen yet.\<close>

definition unseen :: poll_state where
  "unseen = \<lparr>lastPollTime = 0, lastMediaSequence = - 1, consecutiveStales = 0\<rparr>"

definition cachedState :: "world \<Rightarrow> stream \<Rightarrow> poll_state" where
  "cachedState w s = (case cache w (sid s) of Some st \<Rightarrow> st | None \<Rightarrow> unseen)"

text \<open>The outer \<open>catch\<close> of \<open>checkStream\<close>, reached with the message of the error
  thrown.\<close>

definition onFatal :: "env \<Rightarrow> world \<Rightarrow> stream \<Rightarrow> string \<Rightarrow> world \<times> stream" where
  "onFatal e w s msg =
     (let s1 = addError e (s\<lparr>status := Error\<rparr>) MANIFEST_RETRIEVAL msg ''VIDEO'' None;
          (r, w1, s2) = save e w s1
      in case r of
           VersionError \<Rightarrow> (w1, s2)
         | Saved \<Rightarrow> (emitUpdate w1 s2, s2)
         | SaveError m \<Rightarrow> (emitUpdate w1 s2, s2))"

text \<open>The block that ends each failed fetch and the empty playlist: save; on a version
  conflict return, on another error throw it to the outer \<open>catch\<close>; else emit and
  return.\<close>

definition saveAndReport :: "env \<Rightarrow> world \<Rightarrow> stream \<Rightarrow> world \<times> stream" where
  "saveAndReport e w s =
     (let (r, w1, s1) = save e w s
      in case r of
           VersionError \<Rightarrow> (w1, s1)
         | SaveError m \<Rightarrow> onFatal e w1 s1 m
         | Saved \<Rightarrow> (emitUpdate w1 s1, s1))"

text \<open>Fetching: the manifest at the stream's URL and, when it is a master playlist, its
  first variant. The result is either the finished poll (a fetch failed) or the media
  playlist, the URL it came from and the stream record so far.\<close>

definition fetchPhase ::
  "env \<Rightarrow> world \<Rightarrow> stream \<Rightarrow> (world \<times> stream) + (manifest \<times> string \<times> stream)" where
  "fetchPhase e w s =
     (case fetchManifest e (url s) of
        Inl err \<Rightarrow>
          Inl (saveAndReport e w
                ((addError e s MANIFEST_RETRIEVAL (''Failed to fetch manifest: '' @ message err)
                    ''MASTER'' (httpStatus err))\<lparr>status := Error\<rparr>))
      | Inr m \<Rightarrow>
          (case playlists m of
             [] \<Rightarrow> Inr (m, url s, s)
           | v # vs \<Rightarrow>
               (let variantUrl = resolveVariantUrl (url s) (variantUri v);
                    s1 = (case BANDWIDTH v of
                            Some b \<Rightarrow> if b \<noteq> 0 then s\<lparr>stats := (stats s)\<lparr>bandwidth := Some b\<rparr>\<rparr> else s
                          | None \<Rightarrow> s);
                    s2 = (case RESOLUTION v of
                            Some (wd, ht) \<Rightarrow>
                              s1\<lparr>stats := (stats s1)\<lparr>resolution := Some (showNat wd @ ''x'' @ showNat ht)\<rparr>\<rparr>
                          | None \<Rightarrow> s1)
                in case fetchManifest e variantUrl of
                     Inl err \<Rightarrow>
                       Inl (saveAndReport e w
                             ((addError e s2 MANIFEST_RETRIEVAL
                                 (''Failed to fetch variant: '' @ message err)
                                 ''VIDEO'' (httpStatus err))\<lparr>status := Error\<rparr>))
                   | Inr m2 \<Rightarrow> Inr (m2, variantUrl, s2))))"

text \<open>\<open>manifest.mediaSequence || 0\<close>.\<close>

definition currentSequenceOf :: "manifest \<Rightarrow> int" where
  "currentSequenceOf m = (case m_mediaSequence m of Some n \<Rightarrow> int n | None \<Rightarrow> 0)"

text \<open>The staleness check.\<close>

definition stalenessCheck :: "env \<Rightarrow> poll_state \<Rightarrow> stream \<Rightarrow> int \<Rightarrow> poll_state \<times> stream" where
  "stalenessCheck e st s currentSequence =
     (if currentSequence = lastMediaSequence st then
        (let st1 = st\<lparr>consecutiveStales := consecutiveStales st + 1\<rparr>;
             elapsed = dateNow e - lastPollTime st;
             s1 = s\<lparr>health := (health s)\<lparr>timeSinceLastUpdate := elapsed\<rparr>\<rparr>
         in if timeSinceLastUpdate (health s1) > staleThreshold (health s1) then
              (st1, addError e (s1\<lparr>health := (health s1)\<lparr>isStale := True\<rparr>, status := Stale\<rparr>)
                      STALE_MANIFEST
                      (''Playlist stale for '' @ showInt (timeSinceLastUpdate (health s1)) @ ''ms'')
                      ''VIDEO'' None)
            else (st1, s1))
      else
        (st\<lparr>consecutiveStales := 0\<rparr>,
         s\<lparr>health := (health s)\<lparr>isStale := False,
                                lastManifestUpdate := Some (Valid (clock e)),
                                timeSinceLastUpdate := 0\<rparr>,
           status := Online\<rparr>))"

text \<open>The sequence checks: jump, then reset.\<close>

definition sequenceChecks :: "env \<Rightarrow> poll_state \<Rightarrow> stream \<Rightarrow> int \<Rightarrow> stream" where
  "sequenceChecks e st s currentSequence =
     (if lastMediaSequence st \<noteq> - 1 then
        (let expectedSequence = lastMediaSequence st + 1;
             s1 = (if currentSequence > expectedSequence then
                     (let gap = currentSequence - expectedSequence
                      in if gap \<ge> 3 then
                           addError e
                             (s\<lparr>health := (health s)\<lparr>sequenceJumps := sequenceJumps (health s) + 1\<rparr>\<rparr>)
                             MEDIA_SEQUENCE
                             (''Sequence jumped from '' @ showInt (lastMediaSequence st) @ '' to ''
                                @ showInt currentSequence @ '' (gap: '' @ showInt gap @ '')'')
                             ''VIDEO'' None
                         else s)
                   else s)
         in if currentSequence < lastMediaSequence st then
              addError e
                (s1\<lparr>health := (health s1)\<lparr>sequenceResets := sequenceResets (health s1) + 1\<rparr>\<rparr>)
                MEDIA_SEQUENCE
                (''Sequence reset from '' @ showInt (lastMediaSequence st) @ '' to ''
                   @ showInt currentSequence)
                ''VIDEO'' None
            else s1)
      else s)"

text \<open>The discontinuity check and the update of the health block.\<close>

definition discontinuityCheck :: "manifest \<Rightarrow> stream \<Rightarrow> stream" where
  "discontinuityCheck m s =
     s\<lparr>health := (health s)
         \<lparr>discontinuitySequence :=
            (case m_discontinuitySequence m of
               Some d \<Rightarrow> d
             | None \<Rightarrow> discontinuitySequence (health s)),
          discontinuityCount := length (filter discontinuity (segments m))\<rparr>\<rparr>"

definition updateHealth :: "poll_state \<Rightarrow> int \<Rightarrow> manifest \<Rightarrow> stream \<Rightarrow> stream" where
  "updateHealth st currentSequence m s =
     s\<lparr>health := (health s)
         \<lparr>previousMediaSequence := lastMediaSequence st,
          mediaSequence := currentSequence,
          segmentCount := length (segments m),
          targetDuration := (case m_targetDuration m of Some d \<Rightarrow> d | None \<Rightarrow> 0),
          playlistType :=
            (case m_playlistType m of
               Some t \<Rightarrow> if t \<noteq> [] then t else ''LIVE''
             | None \<Rightarrow> ''LIVE'')\<rparr>\<rparr>"

text \<open>The evaluation of a media playlist with segments, from the staleness check to the
  new entry of the poll cache.\<close>

definition evaluatePlaylist ::
  "env \<Rightarrow> poll_state \<Rightarrow> stream \<Rightarrow> manifest \<Rightarrow> poll_state \<times> stream" where
  "evaluatePlaylist e st s m =
     (let currentSequence = currentSequenceOf m;
          (st1, s1) = stalenessCheck e st s currentSequence;
          s2 = sequenceChecks e st1 s1 currentSequence;
          s3 = discontinuityCheck m s2;
          s4 = updateHealth st1 currentSequence m s3;
          st2 = st1\<lparr>lastMediaSequence := currentSequence, lastPollTime := dateNow e\<rparr>
      in (st2, s4))"

text \<open>The signal levels of the metrics sample:
  \<open>stats?.video?.bitRate || stats?.container?.bitRate * 0.85 || 0\<close> (an absent bit rate
  times 0.85 is NaN, which is falsy) and \<open>stats?.audio?.bitRate || 128000\<close>.\<close>

definition containerShare :: "stats \<Rightarrow> real" where
  "containerShare st =
     (case container st of
        None \<Rightarrow> 0
      | Some c \<Rightarrow> (case c_bitRate c of None \<Rightarrow> 0 | Some b \<Rightarrow> b * 0.85))"

definition videoBitrateOf :: "stats \<Rightarrow> real" where
  "videoBitrateOf st =
     (case video st of
        None \<Rightarrow> containerShare st
      | Some v \<Rightarrow>
          (case v_bitRate v of
             None \<Rightarrow> containerShare st
           | Some b \<Rightarrow> if b \<noteq> 0 then b else containerShare st))"

definition audioBitrateOf :: "stats \<Rightarrow> real" where
  "audioBitrateOf st =
     (case audio st of
        None \<Rightarrow> 128000
      | Some a \<Rightarrow> (case bitRate a of None \<Rightarrow> 128000 | Some b \<Rightarrow> if b \<noteq> 0 then b else 128000))"

definition signalLevel :: "real \<Rightarrow> real \<Rightarrow> real" where
  "signalLevel rate full = min 100 (max 0 (rate / full * 100))"

text \<open>The rest of the poll after the first save has succeeded: the sliding window and the
  decay, the recent counts of the record, the metrics sample (a failed write is logged
  and skipped), the second save (its errors are logged or ignored) and the event.\<close>

definition scoreAndPublish :: "env \<Rightarrow> world \<Rightarrow> stream \<Rightarrow> int \<Rightarrow> nat \<Rightarrow> world \<times> stream" where
  "scoreAndPublish e w s currentSequence segCount =
     (let recentIssues = calculateSlidingWindowMetrics (clock e) (findById e) (Some (sid s));
          decayFactor = getErrorDecayFactor (clock e) (lastErrorTime (health s));
          s1 = s\<lparr>health := (health s)\<lparr>recentErrors := errors recentIssues,
                                      recentSequenceJumps := jumps recentIssues,
                                      recentSequenceResets := resets recentIssues\<rparr>\<rparr>;
          sample =
            \<lparr>ms_streamId = sid s1,
             healthScore = calculateHealthScore s1 (Some recentIssues) decayFactor,
             videoScore = calculateVideoScore s1,
             audioScore = calculateAudioScore s1,
             videoBitrate = videoBitrateOf (stats s1),
             audioBitrate = audioBitrateOf (stats s1),
             videoLevel = signalLevel (videoBitrateOf (stats s1)) 5000000,
             audioLevel = signalLevel (audioBitrateOf (stats s1)) 320000,
             ms_fps = (case fps (stats s1) of Some f \<Rightarrow> orZero f | None \<Rightarrow> Fin 0),
             ms_status = status s1,
             ms_mediaSequence = currentSequence,
             ms_segmentCount = segCount,
             errorCount = totalErrors (health s1)\<rparr>;
          w1 = (if createSucceeds e then w\<lparr>samples := samples w @ [sample]\<rparr> else w);
          (r, w2, s2) = save e w1 s1
      in (emitUpdate w2 s2, s2))"

text \<open>The poll from the media playlist on: the content check, the evaluation, the update
  of the poll cache, the dispatch of the newest segment to the analysis pipeline, the
  first save, and the rest.\<close>

definition mainPhase :: "env \<Rightarrow> world \<Rightarrow> stream \<Rightarrow> manifest \<Rightarrow> string \<Rightarrow> world \<times> stream" where
  "mainPhase e w s m variantUrl =
     (if segments m = [] then
        saveAndReport e w
          ((addError e s PLAYLIST_CONTENT ''Playlist has no segments'' ''VIDEO'' None)
             \<lparr>status := Error\<rparr>)
      else
        (let (st2, s4) = evaluatePlaylist e (cachedState w s) s m;
             w1 = w\<lparr>cache := (cache w)(sid s \<mapsto> st2)\<rparr>;
             segmentUrl = resolveVariantUrl variantUrl (uri (last (segments m)));
             w2 = w1\<lparr>dispatched := dispatched w1 @ [segmentUrl]\<rparr>;
             s5 = s4\<lparr>lastChecked := Some (Valid (clock e))\<rparr>;
             (r, w3, s6) = save e w2 s5
         in case r of
              VersionError \<Rightarrow> (w3, s6)
            | SaveError msg \<Rightarrow> onFatal e w3 s6 msg
            | Saved \<Rightarrow> scoreAndPublish e w3 s6 (currentSequenceOf m) (length (segments m))))"

text \<open>\<open>checkStream(stream, io)\<close>: the world and the stream record after the poll.\<close>

definition checkStream :: "env \<Rightarrow> world \<Rightarrow> stream \<Rightarrow> world \<times> stream" where
  "checkStream e w s =
     (case fetchPhase e w s of
        Inl finished \<Rightarrow> finished
      | Inr (m, variantUrl, s1) \<Rightarrow> mainPhase e w s1 m variantUrl)"

section \<open>The claims' own words, and concrete inputs\<close>

text \<open>The classification of a ledger entry as the sliding window is specified: a jump
  has the type \<open>SEQUENCE_JUMP\<close> or details that include \<open>Sequence jumped\<close>, a reset has
  the type \<open>SEQUENCE_RESET\<close> or details that include \<open>reset\<close>.\<close>

definition isJump :: "error_entry \<Rightarrow> bool" where
  "isJump err = (errorType err = ''SEQUENCE_JUMP'' \<or> detailsInclude err ''Sequence jumped'')"

definition isReset :: "error_entry \<Rightarrow> bool" where
  "isReset err = (errorType err = ''SEQUENCE_RESET'' \<or> detailsInclude err ''reset'')"

text \<open>The audio score as it is specified: the penalty for the sample rate applies to
  every recorded rate below 44100, the rate 0 included.\<close>

definition specAudioScore :: "stream \<Rightarrow> real" where
  "specAudioScore s =
     (case audio (stats s) of
        None \<Rightarrow> 50
      | Some a \<Rightarrow>
          max 0 (min 100
            (100 - (if codec a = None then 20 else 0)
                 - (case sampleRate a of Some r \<Rightarrow> if r < 44100 then 10 else 0 | None \<Rightarrow> 0)
                 - (if isSilent a then 15 else 0))))"

text \<open>A stream record with the schema's default health block and no probe results yet
  (every block of \<open>stats\<close> absent), and variations of it.\<close>

definition freshHealth :: health where
  "freshHealth =
     \<lparr>isStale = False, lastManifestUpdate = None, timeSinceLastUpdate = 0,
      staleThreshold = 7000, mediaSequence = - 1, previousMediaSequence = - 1,
      sequenceJumps = 0, sequenceResets = 0, discontinuitySequence = 0,
      discontinuityCount = 0, segmentCount = 0, targetDuration = 0, playlistType = ''LIVE'',
      totalErrors = 0, timeSinceLastError = 0, recentErrors = 0, recentSequenceJumps = 0,
      recentSequenceResets = 0, lastErrorTime = None\<rparr>"

definition noStats :: stats where
  "noStats = \<lparr>bandwidth = None, resolution = None, fps = None, video = None, audio = None,
              container = None\<rparr>"

definition freshStream :: stream where
  "freshStream =
     \<lparr>sid = ''64f0c0ffee'', name = ''demo'', url = ''http://host/live/master.m3u8'',
      status = Offline, health = freshHealth, stats = noStats, streamErrors = [],
      thumbnail = None, lastChecked = None\<rparr>"

text \<open>The audio block the probe writes for an AAC stereo track whose sample rate the tool
  did not report (\<open>parseInt(audio.sample_rate) || 0\<close>), and a stream with it.\<close>

definition unratedAudio :: audio_stats where
  "unratedAudio =
     \<lparr>codec = Some ''aac'', channels = Some 2, sampleRate = Some 0, bitRate = Some 128000,
      peakDb = None, avgDb = None, channelLayout = Some ''Stereo'', isSilent = False\<rparr>"

definition unratedStream :: stream where
  "unratedStream = freshStream\<lparr>status := Online, stats := noStats\<lparr>audio := Some unratedAudio\<rparr>\<rparr>"

text \<open>A ledger of five entries, dated in milliseconds.\<close>

definition sampleLedger :: "error_entry list" where
  "sampleLedger =
     [\<lparr>eid = ''eid-1'', date = Some (Valid 1900000), errorType = ''Media Sequence'',
       mediaType = ''VIDEO'', variant = ''unknown'',
       details = Some ''Sequence jumped from 100 to 105 (gap: 4)'', code = None\<rparr>,
      \<lparr>eid = ''eid-2'', date = Some (Valid 1500000), errorType = ''Media Sequence'',
       mediaType = ''VIDEO'', variant = ''unknown'',
       details = Some ''Sequence reset from 105 to 50'', code = None\<rparr>,
      \<lparr>eid = ''eid-3'', date = Some (Valid 100000), errorType = ''Media Sequence'',
       mediaType = ''VIDEO'', variant = ''unknown'',
       details = Some ''Sequence reset from 40 to 7'', code = None\<rparr>,
      \<lparr>eid = ''eid-4'', date = Some Invalid, errorType = ''Stale Manifest'',
       mediaType = ''VIDEO'', variant = ''unknown'',
       details = Some ''Playlist stale for 7100ms'', code = None\<rparr>,
      \<lparr>eid = ''eid-5'', date = Some (Valid 1280000), errorType = ''Manifest Retrieval'',
       mediaType = ''MASTER'', variant = ''unknown'',
       details = Some ''Failed to fetch manifest: timeout'', code = Some 504\<rparr>]"

text \<open>The queue after five submissions to the idle pipeline.\<close>

definition busyPipeline :: pipeline where
  "busyPipeline = runLimited (runLimited (runLimited (runLimited (runLimited idle 1) 2) 3) 4) 5"

text \<open>A media playlist of two segments that starts at the given media sequence; the
  entry of the poll cache after a poll that saw sequence 100; a world whose cache holds
  that entry for the fresh stream; and an environment in which the poll starts 7100 ms
  after that poll, every fetch returns the playlist at sequence 105, and every save is
  rejected with a version conflict.\<close>

definition mediaPlaylist :: "nat \<Rightarrow> manifest" where
  "mediaPlaylist n =
     \<lparr>playlists = [],
      segments = [\<lparr>uri = ''seg-a.ts'', discontinuity = False\<rparr>,
                  \<lparr>uri = ''seg-b.ts'', discontinuity = False\<rparr>],
      m_mediaSequence = Some n, m_targetDuration = Some 6, m_discontinuitySequence = None,
      m_playlistType = None\<rparr>"

definition seenAt100 :: poll_state where
  "seenAt100 = \<lparr>lastPollTime = 1700000000000, lastMediaSequence = 100, consecutiveStales = 0\<rparr>"

definition quietWorld :: world where
  "quietWorld =
     \<lparr>cache = [''64f0c0ffee'' \<mapsto> seenAt100], events = [], samples = [], dispatched = [],
      saveCount = 0\<rparr>"

definition conflictEnv :: env where
  "conflictEnv =
     \<lparr>dateNow = 1700000007100, clock = 1700000007150, randomId = (\<lambda>k. ''k3x9q2m1z''),
      fetchManifest = (\<lambda>u. Inr (mediaPlaylist 105)), saveAnswer = (\<lambda>k. VersionError),
      findById = (\<lambda>i. NotFound), createSucceeds = True\<rparr>"

text \<open>A world in which no stream has been polled yet, and an environment like the one
  above except that every fetch returns the playlist at the given sequence and every
  save is accepted.\<close>

definition blankWorld :: world where
  "blankWorld = \<lparr>cache = Map.empty, events = [], samples = [], dispatched = [], saveCount = 0\<rparr>"

definition acceptingEnv :: "nat \<Rightarrow> env" where
  "acceptingEnv n =
     conflictEnv\<lparr>fetchManifest := (\<lambda>u. Inr (mediaPlaylist n)), saveAnswer := (\<lambda>k. Saved)\<rparr>"

section \<open>Health score\<close>

lemma if_penalty: "(if b then x - c else x) = x - (if b then c else (0::real))"
  by simp

lemma counter_guard:
  "0 \<le> c \<Longrightarrow> (if 0 < n then min (real n * k) c else 0) = min (real n * k) c"
  by (cases "n = 0") simp_all

lemma penalty_distrib: "x - (a * e + b * e + c * e) = x - (a + b + c) * (e::real)"
  by (simp add: distrib_right)

lemma clamp_range: "0 \<le> max 0 (min 100 (x::real)) \<and> max 0 (min 100 x) \<le> 100"
  by simp

lemma health_score_recent:
  "calculateHealthScore s (Some r) d =
     max 0 (min 100
       (100 - (if isStale (health s) then 30 else 0)
            - (if status s = Error then 40 else 0)
            - (if status s = Offline then 50 else 0)
            - (min (real (jumps r) * 5) 20 + min (real (resets r) * 10) 30
                 + min (real (errors r) * 2) 20) * (1 - d)))"
  unfolding calculateHealthScore_def Let_def option.case if_penalty penalty_distrib
  by (rule refl)

lemma health_score_fallback:
  "calculateHealthScore s None d =
     max 0 (min 100
       (100 - (if isStale (health s) then 30 else 0)
            - (if status s = Error then 40 else 0)
            - (if status s = Offline then 50 else 0)
            - min (real (sequenceJumps (health s)) * 5) 20
            - min (real (sequenceResets (health s)) * 10) 30
            - min (real (totalErrors (health s)) * 2) 20))"
proof -
  have g: "\<And>n k. (if 0 < n then min (real n * k) 20 else 0) = min (real n * k) 20"
    "\<And>n k. (if 0 < n then min (real n * k) 30 else 0) = min (real n * k) 30"
    by (simp_all add: counter_guard)
  show ?thesis
    unfolding calculateHealthScore_def Let_def option.case if_penalty g
    by (rule refl)
qed

lemma health_score_range:
  "0 \<le> calculateHealthScore s r d \<and> calculateHealthScore s r d \<le> 100"
  unfolding calculateHealthScore_def Let_def
  by (rule clamp_range)

text \<open>
  C1. For every stream record \<open>s\<close>, recent counts \<open>r\<close> and decay factor \<open>d\<close>, the health
  score is 100, less 30 when the stream is stale, less 40 when its status is \<open>error\<close>,
  less 50 when it is \<open>offline\<close>, less the capped penalties
  \<open>min (jumps * 5) 20 + min (resets * 10) 30 + min (errors * 2) 20\<close> times \<open>1 - d\<close>,
  clamped to the interval from 0 to 100. Without recent counts the all-time counters
  \<open>sequenceJumps\<close>, \<open>sequenceResets\<close> and \<open>totalErrors\<close> take their place, with the same
  caps and no decay (the source's guards \<open>counter > 0\<close> change nothing, a zero counter
  having a zero penalty). Whatever the arguments, the score lies between 0 and 100.
\<close>

theorem calculateHealthScore_spec:
  "calculateHealthScore s (Some r) d =
     max 0 (min 100
       (100 - (if isStale (health s) then 30 else 0)
            - (if status s = Error then 40 else 0)
            - (if status s = Offline then 50 else 0)
            - (min (real (jumps r) * 5) 20 + min (real (resets r) * 10) 30
                 + min (real (errors r) * 2) 20) * (1 - d)))
   \<and> calculateHealthScore s None d =
     max 0 (min 100
       (100 - (if isStale (health s) then 30 else 0)
            - (if status s = Error then 40 else 0)
            - (if status s = Offline then 50 else 0)
            - min (real (sequenceJumps (health s)) * 5) 20
            - min (real (sequenceResets (health s)) * 10) 30
            - min (real (totalErrors (health s)) * 2) 20))
   \<and> 0 \<le> calculateHealthScore s ri d \<and> calculateHealthScore s ri d \<le> 100"
  using health_score_recent [of s r d] health_score_fallback [of s d]
    health_score_range [of s ri d]
  by blast

text \<open>The decay scenario of the specification (two jumps, one reset, three errors, last
  error 48 hours ago, online and fresh) scores 93.5; a stale stream in error with seven
  all-time jumps and one error scores 8 on the fallback path.\<close>

theorem calculateHealthScore_spec_witness:
  "calculateHealthScore (freshStream\<lparr>status := Online\<rparr>)
     (Some \<lparr>jumps = 2, resets = 1, errors = 3\<rparr>) 0.75 = 93.5
   \<and> calculateHealthScore
       (freshStream\<lparr>status := Error,
                     health := freshHealth\<lparr>isStale := True, sequenceJumps := 7, totalErrors := 1\<rparr>\<rparr>)
       None 0.75 = 8"
  using calculateHealthScore_spec
      [of "freshStream\<lparr>status := Online\<rparr>" "\<lparr>jumps = 2, resets = 1, errors = 3\<rparr>" "0.75"]
    calculateHealthScore_spec
      [of "freshStream\<lparr>status := Error,
             health := freshHealth\<lparr>isStale := True, sequenceJumps := 7, totalErrors := 1\<rparr>\<rparr>"
          "\<lparr>jumps = 2, resets = 1, errors = 3\<rparr>" "0.75"]
  by (simp add: freshStream_def freshHealth_def)

section \<open>Decay factor\<close>

lemma decay_never: "getErrorDecayFactor now None = 1"
  by (simp add: getErrorDecayFactor_def)

lemma decay_invalid: "getErrorDecayFactor now (Some Invalid) = 0"
  by (simp add: getErrorDecayFactor_def)

lemma decay_valid:
  "getErrorDecayFactor now (Some (Valid t)) =
     (let h = real_of_int (now - t) / 3600000
      in if h < 1 then 0 else if h < 6 then 0.25 else if h < 24 then 0.5
         else if h < 72 then 0.75 else 0.9)"
  by (simp add: getErrorDecayFactor_def Let_def)

text \<open>
  C5. The decay factor is 1 when there has never been an error, 0 for a date that does
  not parse and for a date in the future (negative elapsed time), and otherwise follows
  the hours elapsed since the last error: 0 under one hour, 0.25 from 1 to under 6,
  0.5 from 6 to under 24, 0.75 from 24 to under 72, 0.9 from 72 on. The function is
  total: it returns one of these values on every input and never throws. (An elapsed
  time that is not finite cannot arise from two millisecond timestamps.)
\<close>

theorem getErrorDecayFactor_table:
  "getErrorDecayFactor now None = 1
   \<and> getErrorDecayFactor now (Some Invalid) = 0
   \<and> (real_of_int (now - t) / 3600000 < 0 \<longrightarrow> getErrorDecayFactor now (Some (Valid t)) = 0)
   \<and> (0 \<le> real_of_int (now - t) / 3600000 \<and> real_of_int (now - t) / 3600000 < 1
        \<longrightarrow> getErrorDecayFactor now (Some (Valid t)) = 0)
   \<and> (1 \<le> real_of_int (now - t) / 3600000 \<and> real_of_int (now - t) / 3600000 < 6
        \<longrightarrow> getErrorDecayFactor now (Some (Valid t)) = 0.25)
   \<and> (6 \<le> real_of_int (now - t) / 3600000 \<and> real_of_int (now - t) / 3600000 < 24
        \<longrightarrow> getErrorDecayFactor now (Some (Valid t)) = 0.5)
   \<and> (24 \<le> real_of_int (now - t) / 3600000 \<and> real_of_int (now - t) / 3600000 < 72
        \<longrightarrow> getErrorDecayFactor now (Some (Valid t)) = 0.75)
   \<and> (72 \<le> real_of_int (now - t) / 3600000 \<longrightarrow> getErrorDecayFactor now (Some (Valid t)) = 0.9)"
  unfolding decay_never decay_invalid decay_valid Let_def
  by simp

text \<open>One instant in each row of the table: a millisecond in the future, one millisecond
  short of an hour, exactly 1, 6, 48 and 72 hours.\<close>

theorem getErrorDecayFactor_table_witness:
  "getErrorDecayFactor 1000000000000 (Some (Valid 1000000000001)) = 0
   \<and> getErrorDecayFactor 1000000000000 (Some (Valid (1000000000000 - 3599999))) = 0
   \<and> getErrorDecayFactor 1000000000000 (Some (Valid (1000000000000 - 3600000))) = 0.25
   \<and> getErrorDecayFactor 1000000000000 (Some (Valid (1000000000000 - 21600000))) = 0.5
   \<and> getErrorDecayFactor 1000000000000 (Some (Valid (1000000000000 - 172800000))) = 0.75
   \<and> getErrorDecayFactor 1000000000000 (Some (Valid (1000000000000 - 259200000))) = 0.9"
  using getErrorDecayFactor_table [of 1000000000000 1000000000001]
    getErrorDecayFactor_table [of 1000000000000 "1000000000000 - 3599999"]
    getErrorDecayFactor_table [of 1000000000000 "1000000000000 - 3600000"]
    getErrorDecayFactor_table [of 1000000000000 "1000000000000 - 21600000"]
    getErrorDecayFactor_table [of 1000000000000 "1000000000000 - 172800000"]
    getErrorDecayFactor_table [of 1000000000000 "1000000000000 - 259200000"]
  by simp

section \<open>Sliding window\<close>

lemma startsWith_iff: "startsWith s p \<longleftrightarrow> (\<exists>q. s = p @ q)"
  unfolding startsWith_def
  by (metis append_eq_conv_conj append_take_drop_id)

lemma includesStr_iff: "includesStr s sub \<longleftrightarrow> (\<exists>p q. s = p @ sub @ q)"
proof (induction s)
  case Nil
  then show ?case by simp
next
  case (Cons c cs)
  show ?case
  proof
    assume "includesStr (c # cs) sub"
    then consider "startsWith (c # cs) sub" | "includesStr cs sub" by auto
    then show "\<exists>p q. c # cs = p @ sub @ q"
    proof cases
      case 1
      then obtain q where "c # cs = sub @ q" by (auto simp: startsWith_iff)
      then have "c # cs = [] @ sub @ q" by simp
      then show ?thesis by blast
    next
      case 2
      then obtain p q where "cs = p @ sub @ q" using Cons.IH by blast
      then have "c # cs = (c # p) @ sub @ q" by simp
      then show ?thesis by blast
    qed
  next
    assume "\<exists>p q. c # cs = p @ sub @ q"
    then obtain p q where pq: "c # cs = p @ sub @ q" by blast
    show "includesStr (c # cs) sub"
    proof (cases p)
      case Nil
      with pq have "startsWith (c # cs) sub" by (auto simp: startsWith_iff)
      then show ?thesis by simp
    next
      case (Cons a p')
      with pq have "cs = p' @ sub @ q" by simp
      then have "includesStr cs sub" using Cons.IH by blast
      then show ?thesis by simp
    qed
  qed
qed

lemma detailsInclude_iff:
  "sub \<noteq> [] \<Longrightarrow>
   detailsInclude err sub \<longleftrightarrow> (\<exists>d p q. details err = Some d \<and> d = p @ sub @ q)"
  by (auto simp: detailsInclude_def includesStr_iff split: option.splits)

lemma inWindow_iff:
  "inWindow now err \<longleftrightarrow> (\<exists>t. date err = Some (Valid t) \<and> t \<ge> now - 12 * 60 * 1000)"
  by (auto simp: inWindow_def split: option.splits jsdate.splits)

lemma isJump_iff:
  "isJump err \<longleftrightarrow>
     errorType err = ''SEQUENCE_JUMP''
     \<or> (\<exists>d p q. details err = Some d \<and> d = p @ ''Sequence jumped'' @ q)"
  by (simp add: isJump_def detailsInclude_iff)

lemma isReset_iff:
  "isReset err \<longleftrightarrow>
     errorType err = ''SEQUENCE_RESET''
     \<or> (\<exists>d p q. details err = Some d \<and> d = p @ ''reset'' @ q)"
  by (simp add: isReset_def detailsInclude_iff)

lemma tally_step:
  "tally acc x =
     \<lparr>jumps = jumps acc + (if isJump x then 1 else 0),
      resets = resets acc + (if isReset x then 1 else 0),
      errors = errors acc + 1\<rparr>"
  by (simp add: tally_def isJump_def isReset_def Let_def)

lemma foldl_tally:
  "foldl tally acc xs =
     \<lparr>jumps = jumps acc + length (filter isJump xs),
      resets = resets acc + length (filter isReset xs),
      errors = errors acc + length xs\<rparr>"
proof (induction xs arbitrary: acc)
  case Nil
  then show ?case by simp
next
  case (Cons x xs)
  show ?case
    unfolding foldl_Cons Cons.IH
    by (simp add: tally_step)
qed

lemma window_counts:
  "i \<noteq> [] \<Longrightarrow> db i = Found (Some errs) \<Longrightarrow>
   calculateSlidingWindowMetrics now db (Some i) =
     \<lparr>jumps = length (filter isJump (filter (inWindow now) errs)),
      resets = length (filter isReset (filter (inWindow now) errs)),
      errors = length (filter (inWindow now) errs)\<rparr>"
  by (simp add: calculateSlidingWindowMetrics_def foldl_tally)

lemma window_failure:
  "i = [] \<or> db i = LookupThrows msg \<or> db i = NotFound \<or> db i = Found None \<Longrightarrow>
   calculateSlidingWindowMetrics now db (Some i) = \<lparr>jumps = 0, resets = 0, errors = 0\<rparr>"
  by (auto simp: calculateSlidingWindowMetrics_def defaultResult_def)

lemma window_no_id:
  "calculateSlidingWindowMetrics now db None = \<lparr>jumps = 0, resets = 0, errors = 0\<rparr>"
  by (simp add: calculateSlidingWindowMetrics_def defaultResult_def)

text \<open>
  C6. The sliding-window read keeps exactly the ledger entries whose date parses and is
  not older than 12 minutes (\<open>inWindow\<close>), and returns the number of kept entries as
  \<open>errors\<close>, the number of kept entries that are jumps (type \<open>SEQUENCE_JUMP\<close>, or details
  containing \<open>Sequence jumped\<close>) as \<open>jumps\<close>, and the number that are resets (type
  \<open>SEQUENCE_RESET\<close>, or details containing \<open>reset\<close>) as \<open>resets\<close>. Without a stream id,
  when the lookup throws or finds nothing, and when the document has no \<open>streamErrors\<close>,
  it returns zeros.
\<close>

theorem calculateSlidingWindowMetrics_spec:
  "calculateSlidingWindowMetrics now db None = \<lparr>jumps = 0, resets = 0, errors = 0\<rparr>
   \<and> (i = [] \<or> db i = LookupThrows msg \<or> db i = NotFound \<or> db i = Found None \<longrightarrow>
        calculateSlidingWindowMetrics now db (Some i) = \<lparr>jumps = 0, resets = 0, errors = 0\<rparr>)
   \<and> (i \<noteq> [] \<and> db i = Found (Some errs) \<longrightarrow>
        calculateSlidingWindowMetrics now db (Some i) =
          \<lparr>jumps = length (filter isJump (filter (inWindow now) errs)),
           resets = length (filter isReset (filter (inWindow now) errs)),
           errors = length (filter (inWindow now) errs)\<rparr>)
   \<and> (inWindow now err \<longleftrightarrow> (\<exists>t. date err = Some (Valid t) \<and> t \<ge> now - 12 * 60 * 1000))
   \<and> (isJump err \<longleftrightarrow>
         errorType err = ''SEQUENCE_JUMP''
         \<or> (\<exists>d p q. details err = Some d \<and> d = p @ ''Sequence jumped'' @ q))
   \<and> (isReset err \<longleftrightarrow>
         errorType err = ''SEQUENCE_RESET''
         \<or> (\<exists>d p q. details err = Some d \<and> d = p @ ''reset'' @ q))"
  using window_no_id [of now db] window_failure [of i db msg now] window_counts [of i db errs now]
    inWindow_iff [of now err] isJump_iff [of err] isReset_iff [of err]
  by blast

text \<open>At the instant 2000000 the window starts at 1280000: of the five entries of the
  sample ledger three are kept (the one dated 100000 and the one with an invalid date
  are not), one a jump and one a reset. The four failures give zeros.\<close>

theorem calculateSlidingWindowMetrics_spec_witness:
  "calculateSlidingWindowMetrics 2000000 (\<lambda>i. Found (Some sampleLedger)) (Some ''64f0c0ffee'')
     = \<lparr>jumps = 1, resets = 1, errors = 3\<rparr>
   \<and> calculateSlidingWindowMetrics 2000000 (\<lambda>i. Found (Some sampleLedger)) (Some '''')
     = \<lparr>jumps = 0, resets = 0, errors = 0\<rparr>
   \<and> calculateSlidingWindowMetrics 2000000 (\<lambda>i. LookupThrows ''timed out'') (Some ''64f0c0ffee'')
     = \<lparr>jumps = 0, resets = 0, errors = 0\<rparr>
   \<and> calculateSlidingWindowMetrics 2000000 (\<lambda>i. NotFound) (Some ''64f0c0ffee'')
     = \<lparr>jumps = 0, resets = 0, errors = 0\<rparr>
   \<and> calculateSlidingWindowMetrics 2000000 (\<lambda>i. Found None) (Some ''64f0c0ffee'')
     = \<lparr>jumps = 0, resets = 0, errors = 0\<rparr>"
  using calculateSlidingWindowMetrics_spec
      [of 2000000 "\<lambda>i. Found (Some sampleLedger)" "''64f0c0ffee''" "''''" sampleLedger]
    calculateSlidingWindowMetrics_spec
      [of 2000000 "\<lambda>i. Found (Some sampleLedger)" "''''" "''''" sampleLedger]
    calculateSlidingWindowMetrics_spec
      [of 2000000 "\<lambda>i. LookupThrows ''timed out''" "''64f0c0ffee''" "''timed out''"]
    calculateSlidingWindowMetrics_spec [of 2000000 "\<lambda>i. NotFound" "''64f0c0ffee''"]
    calculateSlidingWindowMetrics_spec [of 2000000 "\<lambda>i. Found None" "''64f0c0ffee''"]
  by (simp add: sampleLedger_def inWindow_def isJump_def isReset_def detailsInclude_def
      startsWith_def)

section \<open>Audio score\<close>

text \<open>
  C7, as stated, fails: a recorded sample rate of 0 (what the probe writes when the tool
  reports none) is below 44100, yet the guard \<open>audio.sampleRate && ...\<close> of the source
  treats it like an absent rate and takes no points off. The stream with such an audio
  block scores 100, where the specified score is 90.
\<close>

theorem audio_rate_zero_counterexample:
  "sampleRate unratedAudio = Some 0
   \<and> audio (stats unratedStream) = Some unratedAudio
   \<and> calculateAudioScore unratedStream = 100
   \<and> specAudioScore unratedStream = 90"
  by (simp add: unratedStream_def unratedAudio_def noStats_def freshStream_def
      calculateAudioScore_def specAudioScore_def truthyStr_def truthyAndBelow_def Let_def)

text \<open>
  C7, amended. The audio score is 50 when the audio block is absent; otherwise it is 100,
  less 20 when the codec is absent or empty, less 10 when a sample rate is recorded, is
  not 0 and is below 44100, less 15 when the audio is silent, clamped to the interval
  from 0 to 100. A sample rate of 0 or an absent one costs nothing.
\<close>

theorem calculateAudioScore_amended:
  "calculateAudioScore s =
     (case audio (stats s) of
        None \<Rightarrow> 50
      | Some a \<Rightarrow>
          max 0 (min 100
            (100 - (if codec a = None \<or> codec a = Some [] then 20 else 0)
                 - (case sampleRate a of
                      Some r \<Rightarrow> if r \<noteq> 0 \<and> r < 44100 then 10 else 0
                    | None \<Rightarrow> 0)
                 - (if isSilent a then 15 else 0))))"
  by (simp add: calculateAudioScore_def truthyStr_def truthyAndBelow_def Let_def
      split: option.splits)

text \<open>The unrated stream scores 100; with a rate of 22050, no codec and silence, 55.\<close>

theorem calculateAudioScore_amended_witness:
  "calculateAudioScore unratedStream = 100
   \<and> calculateAudioScore
       (unratedStream\<lparr>stats := noStats\<lparr>audio :=
          Some (unratedAudio\<lparr>sampleRate := Some 22050, codec := None, isSilent := True\<rparr>)\<rparr>\<rparr>) = 55"
  using calculateAudioScore_amended [of unratedStream]
    calculateAudioScore_amended [of "unratedStream\<lparr>stats := noStats\<lparr>audio :=
          Some (unratedAudio\<lparr>sampleRate := Some 22050, codec := None, isSilent := True\<rparr>)\<rparr>\<rparr>"]
  by (simp add: unratedStream_def unratedAudio_def noStats_def freshStream_def)

section \<open>Frame rate\<close>

lemma parse_30: "parseFloat ''30'' = Fin 30"
  by (simp add: parseFloat_def startsWith_def isWs_def isDigit_def digitsVal_def exponentOf_def
      scale10_def Let_def)

lemma parse_0: "parseFloat ''0'' = Fin 0"
  by (simp add: parseFloat_def startsWith_def isWs_def isDigit_def digitsVal_def exponentOf_def
      scale10_def Let_def)

lemma parse_30000: "parseFloat ''30000'' = Fin 30000"
  by (simp add: parseFloat_def startsWith_def isWs_def isDigit_def digitsVal_def exponentOf_def
      scale10_def Let_def)

lemma parse_1001: "parseFloat ''1001'' = Fin 1001"
  by (simp add: parseFloat_def startsWith_def isWs_def isDigit_def digitsVal_def exponentOf_def
      scale10_def Let_def)

lemma parse_abc: "parseFloat ''abc'' = NaN"
  by (simp add: parseFloat_def startsWith_def isWs_def isDigit_def Let_def)

lemma divide_by_zero: "x \<noteq> 0 \<Longrightarrow> jsDivide (Fin x) (Fin 0) = (if x < 0 then NegInf else PosInf)"
  by (simp add: jsDivide_def isNegative_def isZero_def isInfinite_def Let_def)

lemma divide_zero_by_zero: "jsDivide (Fin 0) (Fin 0) = NaN"
  by (simp add: jsDivide_def isZero_def Let_def)

lemma divide_finite:
  "0 < x \<Longrightarrow> 0 < y \<Longrightarrow> jsDivide (Fin x) (Fin y) = Fin (x / y)"
  by (simp add: jsDivide_def isNegative_def isZero_def isInfinite_def magnitude_def Let_def)

lemma fps_30_0: "probeFps (Some ''30/0'') = PosInf"
  by (simp add: probeFps_def parse_30 parse_0 divide_by_zero orZero_def isZero_def)

lemma fps_30: "probeFps (Some ''30'') = Fin 30"
  by (simp add: probeFps_def parse_30 orZero_def isZero_def)

lemma fps_ntsc: "probeFps (Some ''30000/1001'') = Fin (30000 / 1001)"
  by (simp add: probeFps_def parse_30000 parse_1001 divide_finite orZero_def isZero_def)

lemma fps_0_0: "probeFps (Some ''0/0'') = Fin 0"
  by (simp add: probeFps_def parse_0 divide_zero_by_zero orZero_def)

lemma fps_abc: "probeFps (Some ''abc'') = Fin 0"
  by (simp add: probeFps_def parse_abc orZero_def)

text \<open>
  C8. The claim asks that a rate string with a zero denominator yield the numeric value
  of the string, 30 for \<open>30/0\<close>. The source divides whenever the string has two parts
  and only replaces a falsy quotient by 0, so \<open>30/0\<close> is stored as the positive
  infinity. The other forms behave as claimed: a string without a slash gives its
  numeric value, a proper fraction its quotient, and a quotient or string that is not
  a number gives 0.
\<close>

theorem probeFps_zero_denominator:
  "probeFps (Some ''30/0'') = PosInf
   \<and> probeFps (Some ''30'') = Fin 30
   \<and> probeFps (Some ''30000/1001'') = Fin (30000 / 1001)
   \<and> probeFps (Some ''0/0'') = Fin 0
   \<and> probeFps (Some ''abc'') = Fin 0"
  using fps_30_0 fps_30 fps_ntsc fps_0_0 fps_abc by blast

section \<open>The bounded queue\<close>

lemma reachable_counts:
  "reachable p \<Longrightarrow> activeProcesses p = int (length (running p)) \<and> length (running p) \<le> 4"
proof (induction rule: reachable.induct)
  case start
  show ?case by (simp add: idle_def)
next
  case (submit p t)
  then show ?case
    by (auto simp: runLimited_def execute_def MAX_CONCURRENT_FFMPEG_def)
next
  case (finish p t out)
  from finish.hyps(2) have "0 < length (running p)"
    by (rule length_pos_if_in_set)
  then have dec: "int (length (running p) - Suc 0) = int (length (running p)) - 1"
    by arith
  from finish.IH finish.hyps(2) dec show ?case
    by (auto simp: settle_def swallow_def release_def execute_def Let_def length_remove1
        split: outcome.splits list.splits)
qed

lemma runLimited_free:
  "activeProcesses p < 4 \<Longrightarrow>
   running (runLimited p t) = running p @ [t] \<and> processQueue (runLimited p t) = processQueue p
   \<and> activeProcesses (runLimited p t) = activeProcesses p + 1"
  by (simp add: runLimited_def execute_def MAX_CONCURRENT_FFMPEG_def)

lemma runLimited_full:
  "\<not> activeProcesses p < 4 \<Longrightarrow>
   running (runLimited p t) = running p \<and> processQueue (runLimited p t) = processQueue p @ [t]
   \<and> activeProcesses (runLimited p t) = activeProcesses p"
  by (simp add: runLimited_def MAX_CONCURRENT_FFMPEG_def)

lemma settle_empty:
  "processQueue p = [] \<Longrightarrow>
   running (settle p u out) = remove1 u (running p)
   \<and> processQueue (settle p u out) = []
   \<and> activeProcesses (settle p u out) = activeProcesses p - 1"
  by (simp add: settle_def swallow_def release_def Let_def split: outcome.splits)

lemma settle_queued:
  "processQueue p = n # rest \<Longrightarrow>
   running (settle p u out) = remove1 u (running p) @ [n]
   \<and> processQueue (settle p u out) = rest
   \<and> activeProcesses (settle p u out) = activeProcesses p - 1 + 1"
  by (simp add: settle_def swallow_def release_def execute_def Let_def split: outcome.splits)

lemma settle_resolves:
  "resolved (settle p u out) = resolved p @ [u] \<and> settle p u out = settle p u Fulfilled"
  by (simp add: settle_def swallow_def release_def execute_def Let_def
      split: outcome.splits list.splits)

text \<open>
  C9. In every reachable state of the queue at most 4 tasks are executing, and
  \<open>activeProcesses\<close> counts them. A task submitted while fewer than 4 are active starts at
  once; otherwise it is appended to the queue. When a running task settles, fulfilled or
  rejected alike, the count goes down by one, the caller's promise is resolved (a
  rejection is swallowed, never passed on), and the head of the queue, if there is one,
  leaves the queue and starts, which takes the count up again.
\<close>

theorem pipeline_bound:
  assumes "reachable p"
  shows "length (running p) \<le> 4
    \<and> activeProcesses p = int (length (running p))
    \<and> (activeProcesses p < 4 \<longrightarrow>
         running (runLimited p t) = running p @ [t]
         \<and> processQueue (runLimited p t) = processQueue p
         \<and> activeProcesses (runLimited p t) = activeProcesses p + 1)
    \<and> (\<not> activeProcesses p < 4 \<longrightarrow>
         running (runLimited p t) = running p
         \<and> processQueue (runLimited p t) = processQueue p @ [t]
         \<and> activeProcesses (runLimited p t) = activeProcesses p)
    \<and> (processQueue p = [] \<longrightarrow>
         running (settle p u out) = remove1 u (running p)
         \<and> processQueue (settle p u out) = []
         \<and> activeProcesses (settle p u out) = activeProcesses p - 1)
    \<and> (processQueue p \<noteq> [] \<longrightarrow>
         running (settle p u out) = remove1 u (running p) @ [hd (processQueue p)]
         \<and> processQueue (settle p u out) = tl (processQueue p)
         \<and> activeProcesses (settle p u out) = activeProcesses p - 1 + 1)
    \<and> resolved (settle p u out) = resolved p @ [u]
    \<and> settle p u out = settle p u Fulfilled"
proof -
  have q: "processQueue p \<noteq> [] \<Longrightarrow> processQueue p = hd (processQueue p) # tl (processQueue p)"
    by simp
  show ?thesis
    using reachable_counts [OF assms] runLimited_free [of p t] runLimited_full [of p t]
      settle_empty [of p u out]
      settle_queued [of p "hd (processQueue p)" "tl (processQueue p)" u out]
      settle_resolves [of p u out] q
    by blast
qed

text \<open>After five submissions four tasks run and the fifth waits. A sixth joins the queue
  behind it. When task 2 fails, it leaves, its promise is resolved, and task 5 starts:
  four tasks run again.\<close>

theorem pipeline_bound_witness:
  "length (running busyPipeline) \<le> 4
   \<and> activeProcesses busyPipeline = 4
   \<and> processQueue (runLimited busyPipeline 6) = [5, 6]
   \<and> running (runLimited busyPipeline 6) = [1, 2, 3, 4]
   \<and> running (settle busyPipeline 2 (Rejected ''probe failed'')) = [1, 3, 4, 5]
   \<and> processQueue (settle busyPipeline 2 (Rejected ''probe failed'')) = []
   \<and> activeProcesses (settle busyPipeline 2 (Rejected ''probe failed'')) = 4
   \<and> resolved (settle busyPipeline 2 (Rejected ''probe failed'')) = [2]"
proof -
  have b: "activeProcesses busyPipeline = 4" "processQueue busyPipeline = [5]"
    "running busyPipeline = [1, 2, 3, 4]" "resolved busyPipeline = []"
    by (simp_all add: busyPipeline_def runLimited_def execute_def idle_def
        MAX_CONCURRENT_FFMPEG_def)
  have r: "reachable busyPipeline"
    unfolding busyPipeline_def by (intro reachable.submit reachable.start)
  show ?thesis
    using pipeline_bound [OF r, of 6 2 "Rejected ''probe failed''"]
    unfolding b by auto
qed

section \<open>Playlist evaluation\<close>

lemma showNat_digit: "n < 10 \<Longrightarrow> showNat n = [digitChar n]"
  by (simp add: showNat.simps [of n])

lemma showNat_more: "10 \<le> n \<Longrightarrow> showNat n = showNat (n div 10) @ [digitChar (n mod 10)]"
  by (simp add: showNat.simps [of n])

lemma show_values:
  "showInt 100 = ''100''" "showInt 105 = ''105''" "showInt 4 = ''4''" "showInt 50 = ''50''"
  "showInt 7100 = ''7100''" "showInt 103 = ''103''" "showInt 104 = ''104''" "showInt 3 = ''3''"
  "showInt 2 = ''2''"
  by (simp_all add: showInt_def showNat_digit showNat_more digitChar_def)

lemma addError_ledger:
  "streamErrors (addError e s ty d mt c) = streamErrors s @ [newEntry e s ty d mt c]"
  by (simp add: addError_def)

lemma addError_kept:
  "sequenceJumps (health (addError e s ty d mt c)) = sequenceJumps (health s)"
  "sequenceResets (health (addError e s ty d mt c)) = sequenceResets (health s)"
  "isStale (health (addError e s ty d mt c)) = isStale (health s)"
  "timeSinceLastUpdate (health (addError e s ty d mt c)) = timeSinceLastUpdate (health s)"
  "lastManifestUpdate (health (addError e s ty d mt c)) = lastManifestUpdate (health s)"
  "staleThreshold (health (addError e s ty d mt c)) = staleThreshold (health s)"
  "recentErrors (health (addError e s ty d mt c)) = recentErrors (health s)"
  "recentSequenceJumps (health (addError e s ty d mt c)) = recentSequenceJumps (health s)"
  "recentSequenceResets (health (addError e s ty d mt c)) = recentSequenceResets (health s)"
  "status (addError e s ty d mt c) = status s"
  "stats (addError e s ty d mt c) = stats s"
  "sid (addError e s ty d mt c) = sid s"
  by (simp_all add: addError_def)

lemma newEntry_cong:
  "streamErrors s' = streamErrors s \<Longrightarrow> stats s' = stats s \<Longrightarrow>
   newEntry e s' ty d mt c = newEntry e s ty d mt c"
  by (simp add: newEntry_def)

text \<open>The last two steps of the evaluation leave the ledger, the status and the fields
  of the health block that the checks set as they are.\<close>

lemma finish_kept:
  "streamErrors (updateHealth st seq m (discontinuityCheck m s)) = streamErrors s"
  "status (updateHealth st seq m (discontinuityCheck m s)) = status s"
  "stats (updateHealth st seq m (discontinuityCheck m s)) = stats s"
  "sid (updateHealth st seq m (discontinuityCheck m s)) = sid s"
  "sequenceJumps (health (updateHealth st seq m (discontinuityCheck m s))) = sequenceJumps (health s)"
  "sequenceResets (health (updateHealth st seq m (discontinuityCheck m s))) = sequenceResets (health s)"
  "isStale (health (updateHealth st seq m (discontinuityCheck m s))) = isStale (health s)"
  "timeSinceLastUpdate (health (updateHealth st seq m (discontinuityCheck m s))) = timeSinceLastUpdate (health s)"
  "lastManifestUpdate (health (updateHealth st seq m (discontinuityCheck m s))) = lastManifestUpdate (health s)"
  "recentErrors (health (updateHealth st seq m (discontinuityCheck m s))) = recentErrors (health s)"
  "recentSequenceJumps (health (updateHealth st seq m (discontinuityCheck m s))) = recentSequenceJumps (health s)"
  "recentSequenceResets (health (updateHealth st seq m (discontinuityCheck m s))) = recentSequenceResets (health s)"
  by (simp_all add: updateHealth_def discontinuityCheck_def)

lemma evaluatePlaylist_steps:
  "evaluatePlaylist e st s m =
     ((fst (stalenessCheck e st s (currentSequenceOf m)))
        \<lparr>lastMediaSequence := currentSequenceOf m, lastPollTime := dateNow e\<rparr>,
      updateHealth (fst (stalenessCheck e st s (currentSequenceOf m))) (currentSequenceOf m) m
        (discontinuityCheck m
          (sequenceChecks e (fst (stalenessCheck e st s (currentSequenceOf m)))
             (snd (stalenessCheck e st s (currentSequenceOf m))) (currentSequenceOf m))))"
  by (simp add: evaluatePlaylist_def Let_def split: prod.splits)

lemma staleness_changed:
  "seq \<noteq> lastMediaSequence st \<Longrightarrow>
   stalenessCheck e st s seq =
     (st\<lparr>consecutiveStales := 0\<rparr>,
      s\<lparr>health := (health s)\<lparr>isStale := False,
                             lastManifestUpdate := Some (Valid (clock e)),
                             timeSinceLastUpdate := 0\<rparr>,
        status := Online\<rparr>)"
  by (simp add: stalenessCheck_def)

lemma staleness_over:
  "seq = lastMediaSequence st \<Longrightarrow> dateNow e - lastPollTime st > staleThreshold (health s) \<Longrightarrow>
   stalenessCheck e st s seq =
     (st\<lparr>consecutiveStales := consecutiveStales st + 1\<rparr>,
      addError e
        (s\<lparr>health := (health s)\<lparr>timeSinceLastUpdate := dateNow e - lastPollTime st,
                               isStale := True\<rparr>,
           status := Stale\<rparr>)
        STALE_MANIFEST
        (''Playlist stale for '' @ showInt (dateNow e - lastPollTime st) @ ''ms'')
        ''VIDEO'' None)"
  by (simp add: stalenessCheck_def Let_def)

lemma staleness_within:
  "seq = lastMediaSequence st \<Longrightarrow>
   \<not> dateNow e - lastPollTime st > staleThreshold (health s) \<Longrightarrow>
   stalenessCheck e st s seq =
     (st\<lparr>consecutiveStales := consecutiveStales st + 1\<rparr>,
      s\<lparr>health := (health s)\<lparr>timeSinceLastUpdate := dateNow e - lastPollTime st\<rparr>\<rparr>)"
  by (simp add: stalenessCheck_def Let_def)

lemma staleness_last:
  "lastMediaSequence (fst (stalenessCheck e st s seq)) = lastMediaSequence st"
  by (simp add: stalenessCheck_def Let_def)

lemma sequence_jump:
  "lastMediaSequence st \<noteq> - 1 \<Longrightarrow> seq > lastMediaSequence st + 1 \<Longrightarrow>
   seq - (lastMediaSequence st + 1) \<ge> 3 \<Longrightarrow>
   sequenceChecks e st s seq =
     addError e (s\<lparr>health := (health s)\<lparr>sequenceJumps := sequenceJumps (health s) + 1\<rparr>\<rparr>)
       MEDIA_SEQUENCE
       (''Sequence jumped from '' @ showInt (lastMediaSequence st) @ '' to '' @ showInt seq
          @ '' (gap: '' @ showInt (seq - (lastMediaSequence st + 1)) @ '')'')
       ''VIDEO'' None"
  by (simp add: sequenceChecks_def Let_def)

lemma sequence_quiet:
  "lastMediaSequence st \<le> seq \<Longrightarrow> seq - (lastMediaSequence st + 1) < 3 \<Longrightarrow>
   sequenceChecks e st s seq = s"
  by (simp add: sequenceChecks_def Let_def)

lemma sequence_reset:
  "lastMediaSequence st \<noteq> - 1 \<Longrightarrow> seq < lastMediaSequence st \<Longrightarrow>
   sequenceChecks e st s seq =
     addError e (s\<lparr>health := (health s)\<lparr>sequenceResets := sequenceResets (health s) + 1\<rparr>\<rparr>)
       MEDIA_SEQUENCE
       (''Sequence reset from '' @ showInt (lastMediaSequence st) @ '' to '' @ showInt seq)
       ''VIDEO'' None"
  by (simp add: sequenceChecks_def Let_def)

lemma evaluate_jump:
  assumes "lastMediaSequence st \<noteq> - 1"
    and "currentSequenceOf m > lastMediaSequence st + 1"
    and "currentSequenceOf m - (lastMediaSequence st + 1) \<ge> 3"
  shows "sequenceJumps (health (snd (evaluatePlaylist e st s m))) = sequenceJumps (health s) + 1
    \<and> sequenceResets (health (snd (evaluatePlaylist e st s m))) = sequenceResets (health s)
    \<and> streamErrors (snd (evaluatePlaylist e st s m)) =
        streamErrors s @
          [newEntry e s MEDIA_SEQUENCE
             (''Sequence jumped from '' @ showInt (lastMediaSequence st) @ '' to ''
                @ showInt (currentSequenceOf m) @ '' (gap: ''
                @ showInt (currentSequenceOf m - (lastMediaSequence st + 1)) @ '')'')
             ''VIDEO'' None]"
proof -
  from assms(2) have ne: "currentSequenceOf m \<noteq> lastMediaSequence st" by simp
  have st0: "lastMediaSequence (st\<lparr>consecutiveStales := 0\<rparr>) = lastMediaSequence st" by simp
  show ?thesis
    unfolding evaluatePlaylist_steps staleness_changed [OF ne] fst_conv snd_conv
    using assms
    by (simp add: sequence_jump st0 finish_kept addError_ledger addError_kept newEntry_def)
qed

lemma evaluate_quiet:
  assumes "currentSequenceOf m > lastMediaSequence st"
    and "currentSequenceOf m - (lastMediaSequence st + 1) < 3"
  shows "sequenceJumps (health (snd (evaluatePlaylist e st s m))) = sequenceJumps (health s)
    \<and> sequenceResets (health (snd (evaluatePlaylist e st s m))) = sequenceResets (health s)
    \<and> streamErrors (snd (evaluatePlaylist e st s m)) = streamErrors s"
proof -
  from assms(1) have ne: "currentSequenceOf m \<noteq> lastMediaSequence st" by simp
  have st0: "lastMediaSequence (st\<lparr>consecutiveStales := 0\<rparr>) = lastMediaSequence st" by simp
  show ?thesis
    unfolding evaluatePlaylist_steps staleness_changed [OF ne] fst_conv snd_conv
    using assms
    by (simp add: sequence_quiet st0 finish_kept)
qed

lemma evaluate_reset:
  assumes "lastMediaSequence st \<noteq> - 1"
    and "currentSequenceOf m < lastMediaSequence st"
  shows "sequenceResets (health (snd (evaluatePlaylist e st s m))) = sequenceResets (health s) + 1
    \<and> sequenceJumps (health (snd (evaluatePlaylist e st s m))) = sequenceJumps (health s)
    \<and> streamErrors (snd (evaluatePlaylist e st s m)) =
        streamErrors s @
          [newEntry e s MEDIA_SEQUENCE
             (''Sequence reset from '' @ showInt (lastMediaSequence st) @ '' to ''
                @ showInt (currentSequenceOf m))
             ''VIDEO'' None]"
proof -
  from assms(2) have ne: "currentSequenceOf m \<noteq> lastMediaSequence st" by simp
  have st0: "lastMediaSequence (st\<lparr>consecutiveStales := 0\<rparr>) = lastMediaSequence st" by simp
  show ?thesis
    unfolding evaluatePlaylist_steps staleness_changed [OF ne] fst_conv snd_conv
    using assms
    by (simp add: sequence_reset st0 finish_kept addError_ledger addError_kept newEntry_def)
qed

text \<open>
  C2. In a poll whose cached \<open>lastMediaSequence\<close> is not -1, with \<open>expected\<close> one more
  than it: when the fetched sequence exceeds \<open>expected\<close> by a gap of 3 or more, the
  evaluation increments \<open>sequenceJumps\<close> by exactly 1 and appends exactly one entry, of
  type Media Sequence, whose details read
  \<open>Sequence jumped from <last> to <seq> (gap: <gap>)\<close>; a gap of 1 or 2 leaves the ledger
  and \<open>sequenceJumps\<close> as they were; when the fetched sequence is below the cached one,
  \<open>sequenceResets\<close> is incremented by exactly 1 and exactly one entry of type Media
  Sequence with details \<open>Sequence reset from <last> to <seq>\<close> is appended.
\<close>

theorem sequence_jump_and_reset:
  assumes "lastMediaSequence st \<noteq> - 1"
  shows "(currentSequenceOf m > lastMediaSequence st + 1
          \<and> currentSequenceOf m - (lastMediaSequence st + 1) \<ge> 3 \<longrightarrow>
            sequenceJumps (health (snd (evaluatePlaylist e st s m))) = sequenceJumps (health s) + 1
            \<and> sequenceResets (health (snd (evaluatePlaylist e st s m))) = sequenceResets (health s)
            \<and> streamErrors (snd (evaluatePlaylist e st s m)) =
                streamErrors s @
                  [newEntry e s MEDIA_SEQUENCE
                     (''Sequence jumped from '' @ showInt (lastMediaSequence st) @ '' to ''
                        @ showInt (currentSequenceOf m) @ '' (gap: ''
                        @ showInt (currentSequenceOf m - (lastMediaSequence st + 1)) @ '')'')
                     ''VIDEO'' None])
    \<and> (currentSequenceOf m - (lastMediaSequence st + 1) = 1
        \<or> currentSequenceOf m - (lastMediaSequence st + 1) = 2 \<longrightarrow>
            sequenceJumps (health (snd (evaluatePlaylist e st s m))) = sequenceJumps (health s)
            \<and> sequenceResets (health (snd (evaluatePlaylist e st s m))) = sequenceResets (health s)
            \<and> streamErrors (snd (evaluatePlaylist e st s m)) = streamErrors s)
    \<and> (currentSequenceOf m < lastMediaSequence st \<longrightarrow>
            sequenceResets (health (snd (evaluatePlaylist e st s m))) = sequenceResets (health s) + 1
            \<and> sequenceJumps (health (snd (evaluatePlaylist e st s m))) = sequenceJumps (health s)
            \<and> streamErrors (snd (evaluatePlaylist e st s m)) =
                streamErrors s @
                  [newEntry e s MEDIA_SEQUENCE
                     (''Sequence reset from '' @ showInt (lastMediaSequence st) @ '' to ''
                        @ showInt (currentSequenceOf m))
                     ''VIDEO'' None])
    \<and> errorType (newEntry e s MEDIA_SEQUENCE d ''VIDEO'' None) = ''Media Sequence''
    \<and> details (newEntry e s MEDIA_SEQUENCE d ''VIDEO'' None) = Some d"
proof -
  have quiet: "currentSequenceOf m - (lastMediaSequence st + 1) = 1
      \<or> currentSequenceOf m - (lastMediaSequence st + 1) = 2 \<Longrightarrow>
    currentSequenceOf m > lastMediaSequence st
    \<and> currentSequenceOf m - (lastMediaSequence st + 1) < 3"
    by auto
  have entry: "errorType (newEntry e s MEDIA_SEQUENCE d ''VIDEO'' None) = ''Media Sequence''
    \<and> details (newEntry e s MEDIA_SEQUENCE d ''VIDEO'' None) = Some d"
    by (simp add: newEntry_def MEDIA_SEQUENCE_def)
  show ?thesis
    using evaluate_jump [OF assms, of m e s] evaluate_quiet [of st m e s]
      evaluate_reset [OF assms, of m e s] quiet entry
    by blast
qed

text \<open>The scenarios of the specification after a poll that saw sequence 100: sequence 105
  is a jump with gap 4, sequence 102 is silent, sequence 50 is a reset.\<close>

theorem sequence_jump_and_reset_witness:
  "sequenceJumps (health (snd (evaluatePlaylist conflictEnv seenAt100 freshStream (mediaPlaylist 105)))) = 1
   \<and> map details (streamErrors (snd (evaluatePlaylist conflictEnv seenAt100 freshStream (mediaPlaylist 105))))
       = [Some ''Sequence jumped from 100 to 105 (gap: 4)'']
   \<and> map errorType (streamErrors (snd (evaluatePlaylist conflictEnv seenAt100 freshStream (mediaPlaylist 105))))
       = [''Media Sequence'']
   \<and> sequenceJumps (health (snd (evaluatePlaylist conflictEnv seenAt100 freshStream (mediaPlaylist 102)))) = 0
   \<and> streamErrors (snd (evaluatePlaylist conflictEnv seenAt100 freshStream (mediaPlaylist 102))) = []
   \<and> sequenceResets (health (snd (evaluatePlaylist conflictEnv seenAt100 freshStream (mediaPlaylist 50)))) = 1
   \<and> map details (streamErrors (snd (evaluatePlaylist conflictEnv seenAt100 freshStream (mediaPlaylist 50))))
       = [Some ''Sequence reset from 100 to 50'']"
proof -
  have h: "lastMediaSequence seenAt100 \<noteq> - 1"
    by (simp add: seenAt100_def)
  show ?thesis
    using sequence_jump_and_reset [OF h, of "mediaPlaylist 105" conflictEnv freshStream]
      sequence_jump_and_reset [OF h, of "mediaPlaylist 102" conflictEnv freshStream]
      sequence_jump_and_reset [OF h, of "mediaPlaylist 50" conflictEnv freshStream]
    by (simp add: seenAt100_def mediaPlaylist_def currentSequenceOf_def freshStream_def
        freshHealth_def newEntry_def show_values MEDIA_SEQUENCE_def)
qed

lemma evaluate_cache:
  "lastMediaSequence (fst (evaluatePlaylist e st s m)) = currentSequenceOf m
   \<and> lastPollTime (fst (evaluatePlaylist e st s m)) = dateNow e"
  by (simp add: evaluatePlaylist_steps)

lemma currentSequence_seen: "currentSequenceOf m \<noteq> - 1"
  by (simp add: currentSequenceOf_def split: option.splits)

text \<open>
  C3, as stated, fails: after a poll that saw sequence 100, a poll that sees sequence 103
  finds the gap \<open>103 - 101 = 2\<close>, below the threshold of 3, and writes nothing, although
  the two sequences differ by 3.
\<close>

theorem successive_polls_counterexample:
  "currentSequenceOf (mediaPlaylist 100) = 100
   \<and> currentSequenceOf (mediaPlaylist 103) = 103
   \<and> (103 :: int) - 100 \<ge> 3
   \<and> streamErrors
        (snd (evaluatePlaylist conflictEnv
               (fst (evaluatePlaylist conflictEnv unseen freshStream (mediaPlaylist 100)))
               freshStream (mediaPlaylist 103)))
       = streamErrors freshStream"
  by (simp add: evaluatePlaylist_steps stalenessCheck_def sequenceChecks_def finish_kept
      currentSequenceOf_def mediaPlaylist_def unseen_def Let_def)

lemma sequence_same: "sequenceChecks e st s (lastMediaSequence st) = s"
  by (simp add: sequenceChecks_def Let_def)

lemma sequenceChecks_kept:
  "isStale (health (sequenceChecks e st s seq)) = isStale (health s)"
  "timeSinceLastUpdate (health (sequenceChecks e st s seq)) = timeSinceLastUpdate (health s)"
  "lastManifestUpdate (health (sequenceChecks e st s seq)) = lastManifestUpdate (health s)"
  "status (sequenceChecks e st s seq) = status s"
  by (simp_all add: sequenceChecks_def Let_def addError_kept)

lemma evaluate_stale:
  assumes "currentSequenceOf m = lastMediaSequence st"
    and "dateNow e - lastPollTime st > staleThreshold (health s)"
  shows "consecutiveStales (fst (evaluatePlaylist e st s m)) = consecutiveStales st + 1
    \<and> timeSinceLastUpdate (health (snd (evaluatePlaylist e st s m))) = dateNow e - lastPollTime st
    \<and> isStale (health (snd (evaluatePlaylist e st s m)))
    \<and> status (snd (evaluatePlaylist e st s m)) = Stale
    \<and> streamErrors (snd (evaluatePlaylist e st s m)) =
        streamErrors s @
          [newEntry e s STALE_MANIFEST
             (''Playlist stale for '' @ showInt (dateNow e - lastPollTime st) @ ''ms'')
             ''VIDEO'' None]"
proof -
  have st1: "lastMediaSequence (st\<lparr>consecutiveStales := consecutiveStales st + 1\<rparr>)
      = lastMediaSequence st"
    by simp
  show ?thesis
    unfolding evaluatePlaylist_steps staleness_over [OF assms] fst_conv snd_conv
    unfolding assms(1) sequence_same [of e "st\<lparr>consecutiveStales := consecutiveStales st + 1\<rparr>",
        unfolded st1]
    by (simp add: finish_kept addError_ledger addError_kept newEntry_def)
qed

lemma evaluate_not_yet_stale:
  assumes "currentSequenceOf m = lastMediaSequence st"
    and "\<not> dateNow e - lastPollTime st > staleThreshold (health s)"
  shows "consecutiveStales (fst (evaluatePlaylist e st s m)) = consecutiveStales st + 1
    \<and> timeSinceLastUpdate (health (snd (evaluatePlaylist e st s m))) = dateNow e - lastPollTime st
    \<and> isStale (health (snd (evaluatePlaylist e st s m))) = isStale (health s)
    \<and> status (snd (evaluatePlaylist e st s m)) = status s
    \<and> streamErrors (snd (evaluatePlaylist e st s m)) = streamErrors s"
proof -
  have st1: "lastMediaSequence (st\<lparr>consecutiveStales := consecutiveStales st + 1\<rparr>)
      = lastMediaSequence st"
    by simp
  show ?thesis
    unfolding evaluatePlaylist_steps staleness_within [OF assms] fst_conv snd_conv
    unfolding assms(1) sequence_same [of e "st\<lparr>consecutiveStales := consecutiveStales st + 1\<rparr>",
        unfolded st1]
    by (simp add: finish_kept)
qed

lemma evaluate_updated:
  assumes "currentSequenceOf m \<noteq> lastMediaSequence st"
  shows "\<not> isStale (health (snd (evaluatePlaylist e st s m)))
    \<and> lastManifestUpdate (health (snd (evaluatePlaylist e st s m))) = Some (Valid (clock e))
    \<and> timeSinceLastUpdate (health (snd (evaluatePlaylist e st s m))) = 0
    \<and> consecutiveStales (fst (evaluatePlaylist e st s m)) = 0
    \<and> status (snd (evaluatePlaylist e st s m)) = Online"
  unfolding evaluatePlaylist_steps staleness_changed [OF assms] fst_conv snd_conv
  by (simp add: finish_kept sequenceChecks_kept)

text \<open>
  C4. In the evaluation of a media playlist with segments: when the fetched sequence
  equals the cached one, \<open>consecutiveStales\<close> goes up by one and \<open>timeSinceLastUpdate\<close>
  becomes \<open>Date.now()\<close> of the poll less the cached \<open>lastPollTime\<close>; if that exceeds
  \<open>staleThreshold\<close>, \<open>isStale\<close> becomes true, the status becomes \<open>stale\<close> and exactly one
  Stale Manifest entry with the elapsed milliseconds is appended, and if it does not,
  \<open>isStale\<close>, the status and the ledger stay as they were. When the sequence has
  changed, \<open>isStale\<close> becomes false, \<open>lastManifestUpdate\<close> becomes the current time (the
  clock read at that point), \<open>timeSinceLastUpdate\<close> and \<open>consecutiveStales\<close> become 0 and
  the status becomes \<open>online\<close>.
\<close>

theorem staleness_spec:
  "(currentSequenceOf m = lastMediaSequence st \<longrightarrow>
      consecutiveStales (fst (evaluatePlaylist e st s m)) = consecutiveStales st + 1
      \<and> timeSinceLastUpdate (health (snd (evaluatePlaylist e st s m))) = dateNow e - lastPollTime st
      \<and> (dateNow e - lastPollTime st > staleThreshold (health s) \<longrightarrow>
            isStale (health (snd (evaluatePlaylist e st s m)))
            \<and> status (snd (evaluatePlaylist e st s m)) = Stale
            \<and> streamErrors (snd (evaluatePlaylist e st s m)) =
                streamErrors s @
                  [newEntry e s STALE_MANIFEST
                     (''Playlist stale for '' @ showInt (dateNow e - lastPollTime st) @ ''ms'')
                     ''VIDEO'' None])
      \<and> (\<not> dateNow e - lastPollTime st > staleThreshold (health s) \<longrightarrow>
            isStale (health (snd (evaluatePlaylist e st s m))) = isStale (health s)
            \<and> status (snd (evaluatePlaylist e st s m)) = status s
            \<and> streamErrors (snd (evaluatePlaylist e st s m)) = streamErrors s))
   \<and> (currentSequenceOf m \<noteq> lastMediaSequence st \<longrightarrow>
        \<not> isStale (health (snd (evaluatePlaylist e st s m)))
        \<and> lastManifestUpdate (health (snd (evaluatePlaylist e st s m))) = Some (Valid (clock e))
        \<and> timeSinceLastUpdate (health (snd (evaluatePlaylist e st s m))) = 0
        \<and> consecutiveStales (fst (evaluatePlaylist e st s m)) = 0
        \<and> status (snd (evaluatePlaylist e st s m)) = Online)
   \<and> errorType (newEntry e s STALE_MANIFEST d ''VIDEO'' None) = ''Stale Manifest''
   \<and> details (newEntry e s STALE_MANIFEST d ''VIDEO'' None) = Some d"
proof -
  have entry: "errorType (newEntry e s STALE_MANIFEST d ''VIDEO'' None) = ''Stale Manifest''
    \<and> details (newEntry e s STALE_MANIFEST d ''VIDEO'' None) = Some d"
    by (simp add: newEntry_def STALE_MANIFEST_def)
  show ?thesis
    using evaluate_stale [where m = m and st = st and e = e and s = s]
      evaluate_not_yet_stale [where m = m and st = st and e = e and s = s]
      evaluate_updated [where m = m and st = st and e = e and s = s] entry
    by blast
qed

text \<open>The stale scenario of the specification: the same sequence 100 again, 7100 ms after
  the last poll, with the default threshold of 7000 ms. A poll that sees 105 instead
  makes the stream online and fresh; one that sees 100 again under a threshold of 10000 ms
  only counts.\<close>

theorem staleness_spec_witness:
  "isStale (health (snd (evaluatePlaylist conflictEnv seenAt100 freshStream (mediaPlaylist 100))))
   \<and> status (snd (evaluatePlaylist conflictEnv seenAt100 freshStream (mediaPlaylist 100))) = Stale
   \<and> map details (streamErrors (snd (evaluatePlaylist conflictEnv seenAt100 freshStream (mediaPlaylist 100))))
       = [Some ''Playlist stale for 7100ms'']
   \<and> consecutiveStales (fst (evaluatePlaylist conflictEnv seenAt100 freshStream (mediaPlaylist 100))) = 1
   \<and> status (snd (evaluatePlaylist conflictEnv seenAt100 freshStream (mediaPlaylist 105))) = Online
   \<and> timeSinceLastUpdate (health (snd (evaluatePlaylist conflictEnv seenAt100 freshStream (mediaPlaylist 105)))) = 0
   \<and> status (snd (evaluatePlaylist conflictEnv seenAt100
         (freshStream\<lparr>health := freshHealth\<lparr>staleThreshold := 10000\<rparr>\<rparr>) (mediaPlaylist 100))) = Offline
   \<and> streamErrors (snd (evaluatePlaylist conflictEnv seenAt100
         (freshStream\<lparr>health := freshHealth\<lparr>staleThreshold := 10000\<rparr>\<rparr>) (mediaPlaylist 100))) = []"
  using staleness_spec [where m = "mediaPlaylist 100" and st = seenAt100 and e = conflictEnv
        and s = freshStream]
    staleness_spec [where m = "mediaPlaylist 105" and st = seenAt100 and e = conflictEnv
        and s = freshStream]
    staleness_spec [where m = "mediaPlaylist 100" and st = seenAt100 and e = conflictEnv
        and s = "freshStream\<lparr>health := freshHealth\<lparr>staleThreshold := 10000\<rparr>\<rparr>"]
  by (simp add: seenAt100_def mediaPlaylist_def currentSequenceOf_def freshStream_def
      freshHealth_def conflictEnv_def newEntry_def show_values)

section \<open>Version conflict on the first save\<close>

lemma fetchPhase_media:
  "fetchPhase e w s = Inr (m, v, s1) \<Longrightarrow> sid s1 = sid s \<and> health s1 = health s"
  by (auto simp: fetchPhase_def Let_def split: sum.splits list.splits option.splits if_splits)

lemma staleness_recent:
  "recentErrors (health (snd (stalenessCheck e st s seq))) = recentErrors (health s)"
  "recentSequenceJumps (health (snd (stalenessCheck e st s seq))) = recentSequenceJumps (health s)"
  "recentSequenceResets (health (snd (stalenessCheck e st s seq))) = recentSequenceResets (health s)"
  by (simp_all add: stalenessCheck_def Let_def addError_kept)

lemma sequence_recent:
  "recentErrors (health (sequenceChecks e st s seq)) = recentErrors (health s)"
  "recentSequenceJumps (health (sequenceChecks e st s seq)) = recentSequenceJumps (health s)"
  "recentSequenceResets (health (sequenceChecks e st s seq)) = recentSequenceResets (health s)"
  by (simp_all add: sequenceChecks_def Let_def addError_kept)

lemma evaluate_recent:
  "recentErrors (health (snd (evaluatePlaylist e st s m))) = recentErrors (health s)"
  "recentSequenceJumps (health (snd (evaluatePlaylist e st s m))) = recentSequenceJumps (health s)"
  "recentSequenceResets (health (snd (evaluatePlaylist e st s m))) = recentSequenceResets (health s)"
  by (simp_all add: evaluatePlaylist_steps finish_kept sequence_recent staleness_recent)

lemma preSave_health: "health (preSave t s) = health s"
  by (simp add: preSave_def)

lemma mainPhase_conflict:
  assumes "segments m \<noteq> []" and "saveAnswer e (saveCount w) = VersionError"
  shows "mainPhase e w s m v =
     (w\<lparr>cache := (cache w)(sid s \<mapsto> fst (evaluatePlaylist e (cachedState w s) s m)),
        dispatched := dispatched w @ [resolveVariantUrl v (uri (last (segments m)))],
        saveCount := saveCount w + 1\<rparr>,
      preSave (clock e)
        ((snd (evaluatePlaylist e (cachedState w s) s m))\<lparr>lastChecked := Some (Valid (clock e))\<rparr>))"
  using assms
  by (simp add: mainPhase_def save_def Let_def split: prod.splits)

text \<open>
  C10. When a poll has reached a media playlist with segments and the first save of the
  stream record is rejected with a version conflict, \<open>checkStream\<close> returns at once: no
  metrics sample is created, \<open>recentErrors\<close>, \<open>recentSequenceJumps\<close> and
  \<open>recentSequenceResets\<close> keep their values, no \<open>stream:update\<close> event is emitted and no
  second save is attempted. By then the poll cache already holds the new
  \<open>lastMediaSequence\<close> and \<open>lastPollTime\<close>, and the newest segment has been handed to the
  analysis pipeline.
\<close>

theorem version_conflict_skips:
  assumes "fetchPhase e w s = Inr (m, variantUrl, s1)"
    and "segments m \<noteq> []"
    and "saveAnswer e (saveCount w) = VersionError"
  shows "samples (fst (checkStream e w s)) = samples w
    \<and> events (fst (checkStream e w s)) = events w
    \<and> saveCount (fst (checkStream e w s)) = saveCount w + 1
    \<and> recentErrors (health (snd (checkStream e w s))) = recentErrors (health s)
    \<and> recentSequenceJumps (health (snd (checkStream e w s))) = recentSequenceJumps (health s)
    \<and> recentSequenceResets (health (snd (checkStream e w s))) = recentSequenceResets (health s)
    \<and> map_option lastMediaSequence (cache (fst (checkStream e w s)) (sid s))
        = Some (currentSequenceOf m)
    \<and> map_option lastPollTime (cache (fst (checkStream e w s)) (sid s)) = Some (dateNow e)
    \<and> dispatched (fst (checkStream e w s))
        = dispatched w @ [resolveVariantUrl variantUrl (uri (last (segments m)))]"
proof -
  from fetchPhase_media [OF assms(1)] have same: "sid s1 = sid s" "health s1 = health s"
    by simp_all
  have run: "checkStream e w s = mainPhase e w s1 m variantUrl"
    by (simp add: checkStream_def assms(1))
  show ?thesis
    unfolding run mainPhase_conflict [OF assms(2,3)] fst_conv snd_conv
    by (simp add: same preSave_health evaluate_recent evaluate_cache)
qed

text \<open>The fresh stream, last seen at sequence 100, polled when every save is rejected:
  the playlist at sequence 105 is evaluated, cached and its last segment dispatched,
  and nothing is recorded or published.\<close>

theorem version_conflict_skips_witness:
  "samples (fst (checkStream conflictEnv quietWorld freshStream)) = []
   \<and> events (fst (checkStream conflictEnv quietWorld freshStream)) = []
   \<and> saveCount (fst (checkStream conflictEnv quietWorld freshStream)) = 1
   \<and> recentErrors (health (snd (checkStream conflictEnv quietWorld freshStream))) = 0
   \<and> map_option lastMediaSequence
        (cache (fst (checkStream conflictEnv quietWorld freshStream)) ''64f0c0ffee'') = Some 105
   \<and> map_option lastPollTime
        (cache (fst (checkStream conflictEnv quietWorld freshStream)) ''64f0c0ffee'')
        = Some 1700000007100
   \<and> dispatched (fst (checkStream conflictEnv quietWorld freshStream))
        = [''http://host/live/seg-b.ts'']"
proof -
  have f: "fetchPhase conflictEnv quietWorld freshStream
      = Inr (mediaPlaylist 105, ''http://host/live/master.m3u8'', freshStream)"
    by (simp add: fetchPhase_def conflictEnv_def mediaPlaylist_def freshStream_def)
  have g: "segments (mediaPlaylist 105) \<noteq> []"
    by (simp add: mediaPlaylist_def)
  have h: "saveAnswer conflictEnv (saveCount quietWorld) = VersionError"
    by (simp add: conflictEnv_def)
  have u: "resolveVariantUrl ''http://host/live/master.m3u8''
      (uri (last (segments (mediaPlaylist 105)))) = ''http://host/live/seg-b.ts''"
    by (simp add: resolveVariantUrl_def baseUrl_def startsWith_def mediaPlaylist_def)
  show ?thesis
    using version_conflict_skips [OF f g h]
    unfolding u
    by (simp add: quietWorld_def freshStream_def freshHealth_def conflictEnv_def
        currentSequenceOf_def mediaPlaylist_def)
qed

section \<open>Successive polls\<close>

lemma fetchPhase_ledger:
  "fetchPhase e w s = Inr (m, v, s1) \<Longrightarrow> streamErrors s1 = streamErrors s"
  by (auto simp: fetchPhase_def Let_def split: sum.splits list.splits option.splits if_splits)

lemma preSave_ledger: "streamErrors (preSave t s) = filter (keptOnSave t) (streamErrors s)"
  by (simp add: preSave_def)

lemma newEntry_kept: "keptOnSave (clock e) (newEntry e s ty d mt c)"
  by (simp add: keptOnSave_def newEntry_def)

lemma scoreAndPublish_result:
  "cache (fst (scoreAndPublish e w s seq n)) = cache w
   \<and> streamErrors (snd (scoreAndPublish e w s seq n))
       = filter (keptOnSave (clock e)) (streamErrors s)
   \<and> totalErrors (health (snd (scoreAndPublish e w s seq n))) = totalErrors (health s)"
  by (simp add: scoreAndPublish_def save_def emitUpdate_def preSave_ledger preSave_health
      Let_def split: prod.splits)

lemma mainPhase_saved:
  assumes "segments m \<noteq> []" and "saveAnswer e (saveCount w) = Saved"
  shows "mainPhase e w s m v =
     scoreAndPublish e
       (w\<lparr>cache := (cache w)(sid s \<mapsto> fst (evaluatePlaylist e (cachedState w s) s m)),
          dispatched := dispatched w @ [resolveVariantUrl v (uri (last (segments m)))],
          saveCount := saveCount w + 1\<rparr>)
       (preSave (clock e)
          ((snd (evaluatePlaylist e (cachedState w s) s m))\<lparr>lastChecked := Some (Valid (clock e))\<rparr>))
       (currentSequenceOf m) (length (segments m))"
  using assms
  by (simp add: mainPhase_def save_def Let_def split: prod.splits)

text \<open>A successful poll: the fetch phase yields a media playlist with segments and the
  first save is accepted. Its cache entry and its ledger come from the evaluation.\<close>

lemma successful_poll:
  assumes "fetchPhase e w s = Inr (m, v, s1)"
    and "segments m \<noteq> []"
    and "saveAnswer e (saveCount w) = Saved"
  shows "cache (fst (checkStream e w s)) (sid s)
      = Some (fst (evaluatePlaylist e (cachedState w s) s1 m))
    \<and> streamErrors (snd (checkStream e w s))
      = filter (keptOnSave (clock e))
          (streamErrors (snd (evaluatePlaylist e (cachedState w s) s1 m)))
    \<and> totalErrors (health (snd (checkStream e w s)))
      = totalErrors (health (snd (evaluatePlaylist e (cachedState w s) s1 m)))"
proof -
  from fetchPhase_media [OF assms(1)] have same: "sid s1 = sid s"
    by simp
  have st: "cachedState w s1 = cachedState w s"
    by (simp add: cachedState_def same)
  have run: "checkStream e w s = mainPhase e w s1 m v"
    by (simp add: checkStream_def assms(1))
  show ?thesis
    unfolding run mainPhase_saved [OF assms(2,3)] st
    by (simp add: scoreAndPublish_result same preSave_ledger preSave_health)
qed

lemma addError_total:
  "totalErrors (health (addError e s ty d mt c)) = totalErrors (health s) + 1"
  by (simp add: addError_def)

lemma finish_total:
  "totalErrors (health (updateHealth st seq m (discontinuityCheck m s))) = totalErrors (health s)"
  by (simp add: updateHealth_def discontinuityCheck_def)

lemma evaluate_quiet_total:
  assumes "currentSequenceOf m > lastMediaSequence st"
    and "currentSequenceOf m - (lastMediaSequence st + 1) < 3"
  shows "totalErrors (health (snd (evaluatePlaylist e st s m))) = totalErrors (health s)"
proof -
  from assms(1) have ne: "currentSequenceOf m \<noteq> lastMediaSequence st" by simp
  have st0: "lastMediaSequence (st\<lparr>consecutiveStales := 0\<rparr>) = lastMediaSequence st" by simp
  show ?thesis
    unfolding evaluatePlaylist_steps staleness_changed [OF ne] fst_conv snd_conv
    using assms
    by (simp add: sequence_quiet st0 finish_total)
qed

lemma evaluate_jump_total:
  assumes "lastMediaSequence st \<noteq> - 1"
    and "currentSequenceOf m > lastMediaSequence st + 1"
    and "currentSequenceOf m - (lastMediaSequence st + 1) \<ge> 3"
  shows "totalErrors (health (snd (evaluatePlaylist e st s m))) = totalErrors (health s) + 1"
proof -
  from assms(2) have ne: "currentSequenceOf m \<noteq> lastMediaSequence st" by simp
  have st0: "lastMediaSequence (st\<lparr>consecutiveStales := 0\<rparr>) = lastMediaSequence st" by simp
  show ?thesis
    unfolding evaluatePlaylist_steps staleness_changed [OF ne] fst_conv snd_conv
    using assms
    by (simp add: sequence_jump st0 finish_total addError_total)
qed

text \<open>
  C3, amended. For any two successive successful polls of the same stream observing
  sequences \<open>s1 < s2\<close>: either \<open>s2 - s1 \<le> 3\<close> and no ledger entry is produced, or
  \<open>s2 - s1 \<ge> 4\<close> and a Media Sequence ledger entry mentioning \<open>s1\<close> and \<open>s2\<close> is
  appended. A poll is successful when its fetches yield a media playlist with segments
  and its first save is accepted; the polls are successive polls of one stream when the
  second finds the cache entry the first has left for the stream's id. After the second
  poll the ledger is what the save hook keeps of the ledger the sweep has loaded,
  followed by nothing in the first case (\<open>totalErrors\<close> is unchanged) and by exactly the
  entry \<open>Sequence jumped from <s1> to <s2> (gap: <s2 - s1 - 1>)\<close> in the second
  (\<open>totalErrors\<close> is one more).
\<close>

theorem successive_polls_amended:
  assumes "fetchPhase e1 w1 sa = Inr (m1, v1, sa')"
    and "segments m1 \<noteq> []"
    and "saveAnswer e1 (saveCount w1) = Saved"
    and "sid sb = sid sa"
    and "cache w2 (sid sa) = cache (fst (checkStream e1 w1 sa)) (sid sa)"
    and "fetchPhase e2 w2 sb = Inr (m2, v2, sb')"
    and "segments m2 \<noteq> []"
    and "saveAnswer e2 (saveCount w2) = Saved"
    and "currentSequenceOf m1 < currentSequenceOf m2"
  shows "(currentSequenceOf m2 - currentSequenceOf m1 \<le> 3 \<longrightarrow>
            streamErrors (snd (checkStream e2 w2 sb))
              = filter (keptOnSave (clock e2)) (streamErrors sb)
            \<and> totalErrors (health (snd (checkStream e2 w2 sb))) = totalErrors (health sb))
    \<and> (currentSequenceOf m2 - currentSequenceOf m1 \<ge> 4 \<longrightarrow>
            streamErrors (snd (checkStream e2 w2 sb))
              = filter (keptOnSave (clock e2)) (streamErrors sb) @
                  [newEntry e2 sb' MEDIA_SEQUENCE
                     (''Sequence jumped from '' @ showInt (currentSequenceOf m1) @ '' to ''
                        @ showInt (currentSequenceOf m2) @ '' (gap: ''
                        @ showInt (currentSequenceOf m2 - currentSequenceOf m1 - 1) @ '')'')
                     ''VIDEO'' None]
            \<and> totalErrors (health (snd (checkStream e2 w2 sb))) = totalErrors (health sb) + 1)
    \<and> errorType (newEntry e2 sb' MEDIA_SEQUENCE d ''VIDEO'' None) = ''Media Sequence''
    \<and> details (newEntry e2 sb' MEDIA_SEQUENCE d ''VIDEO'' None) = Some d"
proof -
  let ?st1 = "fst (evaluatePlaylist e1 (cachedState w1 sa) sa' m1)"
  let ?ev2 = "snd (evaluatePlaylist e2 ?st1 sb' m2)"
  from successful_poll [OF assms(1,2,3)]
  have "cache (fst (checkStream e1 w1 sa)) (sid sa) = Some ?st1"
    by simp
  with assms(4,5) have cached: "cachedState w2 sb = ?st1"
    by (simp add: cachedState_def)
  have last: "lastMediaSequence ?st1 = currentSequenceOf m1"
    by (simp add: evaluate_cache)
  have seen: "lastMediaSequence ?st1 \<noteq> - 1"
    by (simp add: last currentSequence_seen)
  have gap: "currentSequenceOf m2 - (lastMediaSequence ?st1 + 1)
      = currentSequenceOf m2 - currentSequenceOf m1 - 1"
    by (simp add: last)
  from fetchPhase_ledger [OF assms(6)] fetchPhase_media [OF assms(6)]
  have loaded: "streamErrors sb' = streamErrors sb" "health sb' = health sb"
    by simp_all
  from successful_poll [OF assms(6,7,8)]
  have poll: "streamErrors (snd (checkStream e2 w2 sb))
        = filter (keptOnSave (clock e2)) (streamErrors ?ev2)"
    "totalErrors (health (snd (checkStream e2 w2 sb))) = totalErrors (health ?ev2)"
    unfolding cached by simp_all
  have small: "streamErrors (snd (checkStream e2 w2 sb))
        = filter (keptOnSave (clock e2)) (streamErrors sb)
      \<and> totalErrors (health (snd (checkStream e2 w2 sb))) = totalErrors (health sb)"
    if le: "currentSequenceOf m2 - currentSequenceOf m1 \<le> 3"
  proof -
    from le assms(9) have c: "currentSequenceOf m2 > lastMediaSequence ?st1"
      "currentSequenceOf m2 - (lastMediaSequence ?st1 + 1) < 3"
      by (simp_all add: last)
    from evaluate_quiet [OF c, of e2 sb'] evaluate_quiet_total [OF c, of e2 sb']
    show ?thesis
      unfolding poll by (simp add: loaded)
  qed
  have large: "streamErrors (snd (checkStream e2 w2 sb))
        = filter (keptOnSave (clock e2)) (streamErrors sb) @
            [newEntry e2 sb' MEDIA_SEQUENCE
               (''Sequence jumped from '' @ showInt (currentSequenceOf m1) @ '' to ''
                  @ showInt (currentSequenceOf m2) @ '' (gap: ''
                  @ showInt (currentSequenceOf m2 - currentSequenceOf m1 - 1) @ '')'')
               ''VIDEO'' None]
      \<and> totalErrors (health (snd (checkStream e2 w2 sb))) = totalErrors (health sb) + 1"
    if ge: "currentSequenceOf m2 - currentSequenceOf m1 \<ge> 4"
  proof -
    from ge have c: "currentSequenceOf m2 > lastMediaSequence ?st1 + 1"
      "currentSequenceOf m2 - (lastMediaSequence ?st1 + 1) \<ge> 3"
      by (simp_all add: last)
    from evaluate_jump [OF seen c, of e2 sb']
    have ledger: "streamErrors ?ev2 =
        streamErrors sb' @
          [newEntry e2 sb' MEDIA_SEQUENCE
             (''Sequence jumped from '' @ showInt (currentSequenceOf m1) @ '' to ''
                @ showInt (currentSequenceOf m2) @ '' (gap: ''
                @ showInt (currentSequenceOf m2 - currentSequenceOf m1 - 1) @ '')'')
             ''VIDEO'' None]"
      unfolding gap unfolding last by blast
    from evaluate_jump_total [OF seen c, of e2 sb']
    have total: "totalErrors (health ?ev2) = totalErrors (health sb') + 1" .
    show ?thesis
      unfolding poll ledger total
      by (simp add: loaded newEntry_kept)
  qed
  have entry: "errorType (newEntry e2 sb' MEDIA_SEQUENCE d ''VIDEO'' None) = ''Media Sequence''
    \<and> details (newEntry e2 sb' MEDIA_SEQUENCE d ''VIDEO'' None) = Some d"
    by (simp add: newEntry_def MEDIA_SEQUENCE_def)
  show ?thesis
    using small large entry by blast
qed

text \<open>The fresh stream is polled at sequence 100 in a world that has not seen it, and the
  poll is saved. A second saved poll of it at sequence 103 leaves the ledger empty; at
  sequence 104 it holds the one entry, with gap 3.\<close>

theorem successive_polls_amended_witness:
  "streamErrors
     (snd (checkStream (acceptingEnv 103)
            (fst (checkStream (acceptingEnv 100) blankWorld freshStream)) freshStream)) = []
   \<and> totalErrors
       (health
         (snd (checkStream (acceptingEnv 103)
                (fst (checkStream (acceptingEnv 100) blankWorld freshStream)) freshStream))) = 0
   \<and> map details
       (streamErrors
         (snd (checkStream (acceptingEnv 104)
                (fst (checkStream (acceptingEnv 100) blankWorld freshStream)) freshStream)))
       = [Some ''Sequence jumped from 100 to 104 (gap: 3)'']
   \<and> map errorType
       (streamErrors
         (snd (checkStream (acceptingEnv 104)
                (fst (checkStream (acceptingEnv 100) blankWorld freshStream)) freshStream)))
       = [''Media Sequence'']
   \<and> totalErrors
       (health
         (snd (checkStream (acceptingEnv 104)
                (fst (checkStream (acceptingEnv 100) blankWorld freshStream)) freshStream))) = 1"
proof -
  let ?w = "fst (checkStream (acceptingEnv 100) blankWorld freshStream)"
  have f: "\<And>n w. fetchPhase (acceptingEnv n) w freshStream
      = Inr (mediaPlaylist n, ''http://host/live/master.m3u8'', freshStream)"
    by (simp add: fetchPhase_def acceptingEnv_def mediaPlaylist_def freshStream_def)
  have g: "\<And>n. segments (mediaPlaylist n) \<noteq> []"
    by (simp add: mediaPlaylist_def)
  have h: "\<And>n k. saveAnswer (acceptingEnv n) k = Saved"
    by (simp add: acceptingEnv_def)
  have a: "currentSequenceOf (mediaPlaylist 100) < currentSequenceOf (mediaPlaylist 103)"
    and b: "currentSequenceOf (mediaPlaylist 100) < currentSequenceOf (mediaPlaylist 104)"
    by (simp_all add: currentSequenceOf_def mediaPlaylist_def)
  show ?thesis
    using successive_polls_amended [OF f g h refl refl f g h a]
      successive_polls_amended [OF f g h refl refl f g h b]
    by (simp add: currentSequenceOf_def mediaPlaylist_def freshStream_def freshHealth_def
        newEntry_def show_values)
qed

end
